theory Spec2Isabelle
  imports Main "HOL-Library.AList" "HOL-Library.Word"
begin

section \<open>JavaScript values and the operations the helpers rely on\<close>

text \<open>
  The query helpers look a key up in an object literal and fall back with \<open>||\<close>.
  An object literal inherits from \<open>Object.prototype\<close>, so a lookup first consults the
  literal's own properties and then the prototype chain; only when both miss is the result
  \<open>undefined\<close>. A value read that way is a string (an own property of the literal), a
  member of \<open>Object.prototype\<close> (named here by its key) or \<open>undefined\<close>.
\<close>

datatype jsval = JString string | JInherited string | JUndefined

text \<open>The property names every object inherits from \<open>Object.prototype\<close>.\<close>

definition objectPrototypeKeys :: "string list" where
  "objectPrototypeKeys =
     [''constructor'', ''__defineGetter__'', ''__defineSetter__'', ''hasOwnProperty'',
      ''__lookupGetter__'', ''__lookupSetter__'', ''isPrototypeOf'', ''propertyIsEnumerable'',
      ''toString'', ''valueOf'', ''__proto__'', ''toLocaleString'']"

text \<open>\<open>literal[k]\<close> for an object literal with the given own string properties.\<close>

definition getProperty :: "(string \<times> string) list \<Rightarrow> string \<Rightarrow> jsval" where
  "getProperty own k =
     (case map_of own k of
        Some v \<Rightarrow> JString v
      | None \<Rightarrow> if k \<in> set objectPrototypeKeys then JInherited k else JUndefined)"

text \<open>Truthiness: the empty string and \<open>undefined\<close> are falsy, functions and objects are truthy.\<close>

fun truthy :: "jsval \<Rightarrow> bool" where
  "truthy (JString s) = (s \<noteq> [])"
| "truthy (JInherited k) = True"
| "truthy JUndefined = False"

text \<open>\<open>a || b\<close>\<close>

definition js_or :: "jsval \<Rightarrow> jsval \<Rightarrow> jsval" where
  "js_or a b = (if truthy a then a else b)"

text \<open>
  How the runtime (Node, V8) prints a member of \<open>Object.prototype\<close>: the methods are native
  functions, \<open>constructor\<close> is the function \<open>Object\<close>, and \<open>__proto__\<close> reads as the
  prototype object itself.
\<close>

definition inheritedToString :: "string \<Rightarrow> string" where
  "inheritedToString k =
     (if k = ''__proto__'' then ''[object Object]''
      else ''function '' @ (if k = ''constructor'' then ''Object'' else k) @ ''() { [native code] }'')"

text \<open>The text \<open>Array.prototype.join\<close> uses for one element: \<open>undefined\<close> prints as nothing.\<close>

fun elementText :: "jsval \<Rightarrow> string" where
  "elementText (JString s) = s"
| "elementText (JInherited k) = inheritedToString k"
| "elementText JUndefined = []"

text \<open>The text a template literal prints for a value.\<close>

fun templateText :: "jsval \<Rightarrow> string" where
  "templateText (JString s) = s"
| "templateText (JInherited k) = inheritedToString k"
| "templateText JUndefined = ''undefined''"

text \<open>The apostrophe, which the tools put around a string value inside a query.\<close>

definition apostrophe :: string where
  "apostrophe = [CHR 0x27]"

text \<open>
  \<open>array.join(sep)\<close>: the result starts empty; every element after the first is
  preceded by the separator.
\<close>

fun joinJS :: "string \<Rightarrow> jsval list \<Rightarrow> string" where
  "joinJS sep [] = []"
| "joinJS sep (x # xs) = foldl (\<lambda>R e. R @ sep @ elementText e) (elementText x) xs"

text \<open>
  A JavaScript number, as far as the tools look at one: they test whether it is truthy and
  print it in a template literal. A safe integer (an integer of magnitude below
  \<open>2\<^sup>5\<^sup>3\<close>) is its sign and its 53-bit magnitude, which also gives the two zeros;
  \<open>NaN\<close> is itself; any other number (a fraction, an integer of magnitude \<open>2\<^sup>5\<^sup>3\<close> or
  more, an infinity) is carried by the text JavaScript prints for it, such as \<open>1.5\<close>,
  \<open>1e+21\<close> or \<open>Infinity\<close>.
\<close>

datatype jsnumber = SafeInteger bool "53 word" | NaN | OtherNumber string

text \<open>\<open>n === 0\<close>: both zeros are equal to 0, and nothing else is.\<close>

fun equalsZero :: "jsnumber \<Rightarrow> bool" where
  "equalsZero (SafeInteger negative magnitude) = (magnitude = 0)"
| "equalsZero NaN = False"
| "equalsZero (OtherNumber printed) = False"

text \<open>The decimal digits of a natural number.\<close>

definition digitChar :: "nat \<Rightarrow> char" where
  "digitChar d = (''0123456789'' ! d)"

function digits :: "nat \<Rightarrow> string" where
  "digits n = (if n < 10 then [digitChar n] else digits (n div 10) @ [digitChar (n mod 10)])"
  by pat_completeness auto
termination
  by (relation "measure id") auto

declare digits.simps [simp del]

text \<open>
  The text a template literal prints for a number: a safe integer prints as its decimal
  numeral, with a minus sign when it is negative (negative zero prints as \<open>0\<close>).
\<close>

fun numberToString :: "jsnumber \<Rightarrow> string" where
  "numberToString (SafeInteger negative magnitude) =
     (if negative \<and> magnitude \<noteq> 0 then ''-'' else []) @ digits (unat magnitude)"
| "numberToString NaN = ''NaN''"
| "numberToString (OtherNumber printed) = printed"


section \<open>ShopifyQL helpers (utils/shopifyqlHelpers)\<close>

definition periodMap :: "(string \<times> string) list" where
  "periodMap =
     [(''today'', ''SINCE today''),
      (''yesterday'', ''DURING yesterday''),
      (''last_7_days'', ''SINCE -7d''),
      (''last_30_days'', ''SINCE -30d''),
      (''last_90_days'', ''SINCE -90d''),
      (''last_month'', ''DURING last_month''),
      (''this_month'', ''SINCE startOfMonth(0m)''),
      (''this_year'', ''SINCE startOfYear(0y)''),
      (''last_year'', ''DURING last_year'')]"

definition periodToShopifyQL :: "string \<Rightarrow> jsval" where
  "periodToShopifyQL period = js_or (getProperty periodMap period) (JString ''SINCE -30d'')"

definition groupByMap :: "(string \<times> string) list" where
  "groupByMap =
     [(''day'', ''GROUP BY day''),
      (''week'', ''GROUP BY week''),
      (''month'', ''GROUP BY month''),
      (''product'', ''GROUP BY product_title''),
      (''product_type'', ''GROUP BY product_type''),
      (''channel'', ''GROUP BY sales_channel''),
      (''region'', ''GROUP BY billing_country''),
      (''customer_type'', ''GROUP BY customer_type'')]"

definition groupByToShopifyQL :: "string \<Rightarrow> jsval" where
  "groupByToShopifyQL groupBy = js_or (getProperty groupByMap groupBy) (JString ''GROUP BY day'')"

definition orderByMap :: "(string \<times> string) list" where
  "orderByMap =
     [(''day'', ''ORDER BY day''),
      (''week'', ''ORDER BY week''),
      (''month'', ''ORDER BY month''),
      (''product'', ''ORDER BY total_sales DESC''),
      (''product_type'', ''ORDER BY total_sales DESC''),
      (''channel'', ''ORDER BY total_sales DESC''),
      (''region'', ''ORDER BY total_sales DESC''),
      (''customer_type'', ''ORDER BY total_sales DESC'')]"

definition groupByToOrderBy :: "string \<Rightarrow> jsval" where
  "groupByToOrderBy groupBy = js_or (getProperty orderByMap groupBy) (JString ''ORDER BY day'')"

text \<open>
  The options of \<open>buildShopifyQLQuery\<close>. An optional field is \<open>None\<close> when the caller left
  it out.
\<close>

record query_options =
  opt_from :: string
  opt_show :: "string list"
  opt_where :: "string option"
  opt_groupBy :: "string option"
  opt_period :: string
  opt_orderBy :: "string option"
  opt_limit :: "jsnumber option"

text \<open>\<open>if (s)\<close> for an optional string: absent and empty are both falsy.\<close>

fun truthyString :: "string option \<Rightarrow> bool" where
  "truthyString None = False"
| "truthyString (Some s) = (s \<noteq> [])"

text \<open>
  \<open>if (n)\<close> for an optional number: absent, the two zeros and \<open>NaN\<close> are falsy, every other
  number is truthy.
\<close>

fun truthyNumber :: "jsnumber option \<Rightarrow> bool" where
  "truthyNumber None = False"
| "truthyNumber (Some (SafeInteger negative magnitude)) = (magnitude \<noteq> 0)"
| "truthyNumber (Some NaN) = False"
| "truthyNumber (Some (OtherNumber printed)) = True"

text \<open>
  The builder pushes its clauses onto \<open>parts\<close> one statement after the other and joins
  them with a space; each \<open>let\<close> below is one statement of the source.
\<close>

definition buildShopifyQLQuery :: "query_options \<Rightarrow> string" where
  "buildShopifyQLQuery options =
     (let parts0 = [JString (''FROM '' @ opt_from options),
                    JString (''SHOW '' @ joinJS '', '' (map JString (opt_show options)))];
          parts1 = (if truthyString (opt_where options)
                    then parts0 @ [JString (''WHERE '' @ the (opt_where options))]
                    else parts0);
          parts2 = parts1 @ [periodToShopifyQL (opt_period options)];
          parts3 = (if truthyString (opt_groupBy options)
                    then parts2 @ [groupByToShopifyQL (the (opt_groupBy options))]
                    else parts2);
          parts4 = (if truthyString (opt_orderBy options)
                    then parts3 @ [JString (the (opt_orderBy options))]
                    else if truthyString (opt_groupBy options)
                    then parts3 @ [groupByToOrderBy (the (opt_groupBy options))]
                    else parts3);
          parts5 = (if truthyNumber (opt_limit options)
                    then parts4 @ [JString (''LIMIT '' @ numberToString (the (opt_limit options)))]
                    else parts4)
      in joinJS '' '' parts5)"


section \<open>The query text as the specification describes it\<close>

text \<open>
  The specification describes the query as a fixed sequence of clauses in which an optional
  clause is either absent or present with its text. The definitions below follow that
  description; the theorems compare them with \<open>buildShopifyQLQuery\<close>.
\<close>

text \<open>A list of strings joined with a separator between neighbours.\<close>

fun joinedWith :: "string \<Rightarrow> string list \<Rightarrow> string" where
  "joinedWith sep [] = []"
| "joinedWith sep [x] = x"
| "joinedWith sep (x # y # ys) = x @ sep @ joinedWith sep (y # ys)"

text \<open>An optional clause adds nothing when absent, and a space and its text when present.\<close>

fun optionalText :: "string option \<Rightarrow> string" where
  "optionalText None = []"
| "optionalText (Some c) = '' '' @ c"

definition whereClause :: "query_options \<Rightarrow> string option" where
  "whereClause options =
     (case opt_where options of
        None \<Rightarrow> None
      | Some w \<Rightarrow> if w = [] then None else Some (''WHERE '' @ w))"

definition periodClause :: "query_options \<Rightarrow> string" where
  "periodClause options = elementText (periodToShopifyQL (opt_period options))"

definition groupByClause :: "query_options \<Rightarrow> string option" where
  "groupByClause options =
     (case opt_groupBy options of
        None \<Rightarrow> None
      | Some g \<Rightarrow> if g = [] then None else Some (elementText (groupByToShopifyQL g)))"

text \<open>The ordering clause: the explicit one, else the default ordering of the grouping.\<close>

definition orderByClause :: "query_options \<Rightarrow> string option" where
  "orderByClause options =
     (case opt_orderBy options of
        Some ob \<Rightarrow>
          if ob \<noteq> [] then Some ob
          else (case opt_groupBy options of
                  None \<Rightarrow> None
                | Some g \<Rightarrow> if g = [] then None else Some (elementText (groupByToOrderBy g)))
      | None \<Rightarrow>
          (case opt_groupBy options of
             None \<Rightarrow> None
           | Some g \<Rightarrow> if g = [] then None else Some (elementText (groupByToOrderBy g))))"

definition limitClause :: "query_options \<Rightarrow> string option" where
  "limitClause options =
     (case opt_limit options of
        None \<Rightarrow> None
      | Some n \<Rightarrow>
          if equalsZero n \<or> n = NaN then None else Some (''LIMIT '' @ numberToString n))"

text \<open>Everything up to and including the ordering clause.\<close>

definition queryBeforeLimit :: "query_options \<Rightarrow> string" where
  "queryBeforeLimit options =
     ''FROM '' @ opt_from options @ '' SHOW '' @ joinedWith '', '' (opt_show options)
       @ optionalText (whereClause options) @ '' '' @ periodClause options
       @ optionalText (groupByClause options) @ optionalText (orderByClause options)"


text \<open>
  The number a decimal numeral stands for: a non-empty string of digits with no leading
  zero (the numeral \<open>0\<close> apart), or such a numeral other than \<open>0\<close> after a minus sign.
  Nothing else is a numeral, so a number has one numeral only.
\<close>

definition digitValue :: "char \<Rightarrow> nat option" where
  "digitValue c = map_of (zip ''0123456789'' [0, 1, 2, 3, 4, 5, 6, 7, 8, 9]) c"

fun digitsValue :: "nat \<Rightarrow> string \<Rightarrow> nat option" where
  "digitsValue acc [] = Some acc"
| "digitsValue acc (c # cs) =
     (case digitValue c of None \<Rightarrow> None | Some d \<Rightarrow> digitsValue (10 * acc + d) cs)"

definition decimalNat :: "string \<Rightarrow> nat option" where
  "decimalNat s =
     (if s = [] \<or> (length s > 1 \<and> hd s = CHR ''0'') then None else digitsValue 0 s)"

definition decimalValue :: "string \<Rightarrow> int option" where
  "decimalValue s =
     (case s of
        [] \<Rightarrow> None
      | c # cs \<Rightarrow>
          if c = CHR ''-'' then
            (case decimalNat cs of
               None \<Rightarrow> None
             | Some n \<Rightarrow> if n = 0 then None else Some (- int n))
          else map_option int (decimalNat s))"


section \<open>The remote client and the errors of a tool\<close>

text \<open>
  A value caught by \<open>catch (error)\<close>: an \<open>Error\<close> object with its message, or any other
  thrown value, carried here by the text \<open>String(error)\<close> gives for it.
\<close>

datatype thrown = ErrorObject string | NonError string

text \<open>\<open>error instanceof Error ? error.message : String(error)\<close>\<close>

fun errorMessage :: "thrown \<Rightarrow> string" where
  "errorMessage (ErrorObject message) = message"
| "errorMessage (NonError text) = text"

text \<open>
  \<open>shopifyClient.request(document, variables)\<close> is a parameter of every tool: a function
  from the variables of the request to either the thrown value or the response data, typed
  as the source casts it. The two clients below answer every request the same way.

  Every \<open>execute\<close> is one \<open>try\<close> block with one \<open>catch\<close>. For a tool \<open>t\<close>, the function
  \<open>t_try\<close> is the body of the \<open>try\<close> block, returning what it throws (\<open>Inl\<close>) or what it
  returns (\<open>Inr\<close>), and \<open>t_execute\<close> is the whole function, whose error is the message of
  the \<open>Error\<close> the \<open>catch\<close> block throws. The \<open>catch\<close> block also writes the caught value to
  the console, which changes nothing of what is raised and is left out.
\<close>

definition respondWith :: "'d \<Rightarrow> 'v \<Rightarrow> thrown + 'd" where
  "respondWith data variables = Inr data"

definition failWith :: "thrown \<Rightarrow> 'v \<Rightarrow> thrown + 'd" where
  "failWith error variables = Inl error"

text \<open>The pagination wrappers of the remote API: a connection holds edges, an edge a node.\<close>

record 'a edge =
  node :: 'a

record 'a connection =
  edges :: "'a edge list"


section \<open>Analytics tools\<close>

record column =
  col_name :: string
  col_dataType :: string
  col_displayName :: string

record table_data =
  td_columns :: "column list"
  td_rows :: "string list list"

text \<open>The \<open>shopifyqlQuery\<close> field of the response; \<open>tableData\<close> may be null.\<close>

record shopifyql_response =
  sq_tableData :: "table_data option"
  sq_parseErrors :: "string list option"

record shopifyql_data =
  d_shopifyqlQuery :: shopifyql_response

text \<open>
  An analytics tool returns an object literal whose keys differ from tool to tool and from
  branch to branch, so a result is the list of its properties in the order written.
\<close>

datatype rvalue =
    RString string
  | RNumber int
  | RColumns "column list"
  | RRows "string list list"
  | RObjects "(string \<times> string option) list list"

type_synonym result_object = "(string \<times> rvalue) list"

text \<open>
  \<open>data.shopifyqlQuery.parseErrors && data.shopifyqlQuery.parseErrors.length > 0\<close>
\<close>

definition hasParseErrors :: "shopifyql_data \<Rightarrow> bool" where
  "hasParseErrors data =
     (case sq_parseErrors (d_shopifyqlQuery data) of
        None \<Rightarrow> False
      | Some errors \<Rightarrow> length errors > 0)"

definition parseErrorsMessage :: "shopifyql_data \<Rightarrow> string" where
  "parseErrorsMessage data =
     ''ShopifyQL parse errors: ''
       @ joinJS ''; '' (map JString (the (sq_parseErrors (d_shopifyqlQuery data))))"

text \<open>\<open>row[index]\<close>: \<open>undefined\<close> past the end of the row.\<close>

definition rowCell :: "string list \<Rightarrow> nat \<Rightarrow> string option" where
  "rowCell row index = (if index < length row then Some (row ! index) else None)"

text \<open>
  \<open>object[key] = value\<close> on a record of cells: an existing key keeps its place, a new key
  is added at the end; assigning a primitive to \<open>__proto__\<close> changes nothing. (The place
  JavaScript gives to keys that look like array indices is not modelled.)
\<close>

definition setProperty ::
  "(string \<times> string option) list \<Rightarrow> string \<Rightarrow> string option \<Rightarrow> (string \<times> string option) list"
where
  "setProperty object key v = (if key = ''__proto__'' then object else AList.update key v object)"

text \<open>Transform one row into an object keyed by column name.\<close>

definition rowToObject :: "column list \<Rightarrow> string list \<Rightarrow> (string \<times> string option) list" where
  "rowToObject columns row =
     foldl (\<lambda>object (col, index). setProperty object (col_name col) (rowCell row index))
       [] (zip columns [0..<length columns])"

subsection \<open>run-shopifyql-query\<close>

record runShopifyqlQuery_input =
  rq_query :: string

record query_variables =
  qv_query :: string

definition runShopifyqlQuery_try ::
  "runShopifyqlQuery_input \<Rightarrow> (query_variables \<Rightarrow> thrown + shopifyql_data) \<Rightarrow> thrown + result_object"
where
  "runShopifyqlQuery_try input request =
     (let shopifyqlQuery = rq_query input;
          variables = \<lparr>qv_query = shopifyqlQuery\<rparr>
      in case request variables of
           Inl error \<Rightarrow> Inl error
         | Inr data \<Rightarrow>
             if hasParseErrors data then Inl (ErrorObject (parseErrorsMessage data))
             else (case sq_tableData (d_shopifyqlQuery data) of
                     None \<Rightarrow>
                       Inr [(''columns'', RColumns []), (''rows'', RRows []),
                            (''rowCount'', RNumber 0)]
                   | Some tableData \<Rightarrow>
                       Inr [(''columns'', RColumns (td_columns tableData)),
                            (''rows'', RRows (td_rows tableData)),
                            (''rowCount'', RNumber (int (length (td_rows tableData))))]))"

definition runShopifyqlQuery_execute ::
  "runShopifyqlQuery_input \<Rightarrow> (query_variables \<Rightarrow> thrown + shopifyql_data) \<Rightarrow> string + result_object"
where
  "runShopifyqlQuery_execute input request =
     (case runShopifyqlQuery_try input request of
        Inl error \<Rightarrow> Inl (''Failed to execute ShopifyQL query: '' @ errorMessage error)
      | Inr result \<Rightarrow> Inr result)"

subsection \<open>get-sales-report\<close>

record getSalesReport_input =
  sr_period :: string
  sr_groupBy :: string
  sr_metrics :: "string list"
  sr_limit :: jsnumber

text \<open>Build the ShopifyQL query.\<close>

definition salesReportQuery :: "getSalesReport_input \<Rightarrow> string" where
  "salesReportQuery input =
     buildShopifyQLQuery
       \<lparr>opt_from = ''sales'', opt_show = sr_metrics input, opt_where = None,
        opt_groupBy = Some (sr_groupBy input), opt_period = sr_period input,
        opt_orderBy = None, opt_limit = Some (sr_limit input)\<rparr>"

definition getSalesReport_try ::
  "getSalesReport_input \<Rightarrow> (query_variables \<Rightarrow> thrown + shopifyql_data) \<Rightarrow> thrown + result_object"
where
  "getSalesReport_try input request =
     (let period = sr_period input; groupBy = sr_groupBy input;
          shopifyqlQuery = salesReportQuery input;
          variables = \<lparr>qv_query = shopifyqlQuery\<rparr>
      in case request variables of
           Inl error \<Rightarrow> Inl error
         | Inr data \<Rightarrow>
             if hasParseErrors data then Inl (ErrorObject (parseErrorsMessage data))
             else (case sq_tableData (d_shopifyqlQuery data) of
                     None \<Rightarrow>
                       Inr [(''query'', RString shopifyqlQuery), (''period'', RString period),
                            (''groupBy'', RString groupBy), (''columns'', RColumns []),
                            (''rows'', RRows []), (''rowCount'', RNumber 0)]
                   | Some tableData \<Rightarrow>
                       Inr [(''query'', RString shopifyqlQuery), (''period'', RString period),
                            (''groupBy'', RString groupBy),
                            (''columns'', RColumns (td_columns tableData)),
                            (''rows'', RRows (td_rows tableData)),
                            (''rowCount'', RNumber (int (length (td_rows tableData))))]))"

definition getSalesReport_execute ::
  "getSalesReport_input \<Rightarrow> (query_variables \<Rightarrow> thrown + shopifyql_data) \<Rightarrow> string + result_object"
where
  "getSalesReport_execute input request =
     (case getSalesReport_try input request of
        Inl error \<Rightarrow> Inl (''Failed to fetch sales report: '' @ errorMessage error)
      | Inr result \<Rightarrow> Inr result)"

subsection \<open>get-product-performance\<close>

record getProductPerformance_input =
  pp_period :: string
  pp_sortBy :: string
  pp_limit :: jsnumber
  pp_productType :: "string option"

definition productPerformanceQuery :: "getProductPerformance_input \<Rightarrow> string" where
  "productPerformanceQuery input =
     (let metrics = [''product_title'', ''total_sales'', ''orders'', ''units_sold''];
          periodClause = periodToShopifyQL (pp_period input);
          whereClause = (if truthyString (pp_productType input)
                         then ''WHERE product_type = '' @ apostrophe @ the (pp_productType input)
                                @ apostrophe
                         else [])
      in ''FROM sales SHOW '' @ joinJS '', '' (map JString metrics) @ '' '' @ whereClause
           @ '' '' @ templateText periodClause @ '' GROUP BY product_title ORDER BY ''
           @ pp_sortBy input @ '' DESC LIMIT '' @ numberToString (pp_limit input))"

definition getProductPerformance_try ::
  "getProductPerformance_input \<Rightarrow> (query_variables \<Rightarrow> thrown + shopifyql_data)
     \<Rightarrow> thrown + result_object"
where
  "getProductPerformance_try input request =
     (let period = pp_period input; sortBy = pp_sortBy input;
          shopifyqlQuery = productPerformanceQuery input;
          variables = \<lparr>qv_query = shopifyqlQuery\<rparr>
      in case request variables of
           Inl error \<Rightarrow> Inl error
         | Inr data \<Rightarrow>
             if hasParseErrors data then Inl (ErrorObject (parseErrorsMessage data))
             else (case sq_tableData (d_shopifyqlQuery data) of
                     None \<Rightarrow>
                       Inr [(''query'', RString shopifyqlQuery), (''period'', RString period),
                            (''sortBy'', RString sortBy), (''columns'', RColumns []),
                            (''products'', RObjects []), (''productCount'', RNumber 0)]
                   | Some tableData \<Rightarrow>
                       (let products = map (rowToObject (td_columns tableData)) (td_rows tableData)
                        in Inr [(''query'', RString shopifyqlQuery), (''period'', RString period),
                                (''sortBy'', RString sortBy),
                                (''columns'', RColumns (td_columns tableData)),
                                (''products'', RObjects products),
                                (''productCount'', RNumber (int (length products)))])))"

definition getProductPerformance_execute ::
  "getProductPerformance_input \<Rightarrow> (query_variables \<Rightarrow> thrown + shopifyql_data)
     \<Rightarrow> string + result_object"
where
  "getProductPerformance_execute input request =
     (case getProductPerformance_try input request of
        Inl error \<Rightarrow> Inl (''Failed to fetch product performance: '' @ errorMessage error)
      | Inr result \<Rightarrow> Inr result)"

subsection \<open>get-customer-analytics\<close>

record getCustomerAnalytics_input =
  ca_period :: string
  ca_reportType :: string
  ca_groupBy :: string

definition customerAnalyticsQuery :: "getCustomerAnalytics_input \<Rightarrow> string" where
  "customerAnalyticsQuery input =
     (let reportType = ca_reportType input; groupBy = ca_groupBy input;
          periodClause = templateText (periodToShopifyQL (ca_period input))
      in if reportType = ''acquisition'' then
           ''FROM sales SHOW total_sales, orders WHERE customer_type = '' @ apostrophe
             @ ''First-time'' @ apostrophe @ '' OR customer_type = '' @ apostrophe
             @ ''Returning'' @ apostrophe @ '' '' @ periodClause
             @ '' GROUP BY customer_type, '' @ groupBy @ '' ORDER BY '' @ groupBy
         else if reportType = ''retention'' then
           ''FROM sales SHOW total_sales, orders, average_order_value '' @ periodClause
             @ '' GROUP BY customer_type ORDER BY total_sales DESC''
         else if reportType = ''spending'' then
           ''FROM sales SHOW total_sales, orders, average_order_value '' @ periodClause
             @ '' GROUP BY billing_country ORDER BY total_sales DESC LIMIT 20''
         else
           ''FROM sales SHOW total_sales, orders, average_order_value '' @ periodClause
             @ '' GROUP BY customer_type, '' @ groupBy @ '' ORDER BY '' @ groupBy)"

definition getCustomerAnalytics_try ::
  "getCustomerAnalytics_input \<Rightarrow> (query_variables \<Rightarrow> thrown + shopifyql_data)
     \<Rightarrow> thrown + result_object"
where
  "getCustomerAnalytics_try input request =
     (let period = ca_period input; reportType = ca_reportType input;
          groupBy = ca_groupBy input;
          shopifyqlQuery = customerAnalyticsQuery input;
          variables = \<lparr>qv_query = shopifyqlQuery\<rparr>
      in case request variables of
           Inl error \<Rightarrow> Inl error
         | Inr data \<Rightarrow>
             if hasParseErrors data then Inl (ErrorObject (parseErrorsMessage data))
             else (case sq_tableData (d_shopifyqlQuery data) of
                     None \<Rightarrow>
                       Inr [(''query'', RString shopifyqlQuery), (''period'', RString period),
                            (''reportType'', RString reportType), (''columns'', RColumns []),
                            (''rows'', RRows []), (''rowCount'', RNumber 0)]
                   | Some tableData \<Rightarrow>
                       (let results = map (rowToObject (td_columns tableData)) (td_rows tableData)
                        in Inr [(''query'', RString shopifyqlQuery), (''period'', RString period),
                                (''reportType'', RString reportType),
                                (''groupBy'', RString groupBy),
                                (''columns'', RColumns (td_columns tableData)),
                                (''results'', RObjects results),
                                (''rowCount'', RNumber (int (length results)))])))"

definition getCustomerAnalytics_execute ::
  "getCustomerAnalytics_input \<Rightarrow> (query_variables \<Rightarrow> thrown + shopifyql_data)
     \<Rightarrow> string + result_object"
where
  "getCustomerAnalytics_execute input request =
     (case getCustomerAnalytics_try input request of
        Inl error \<Rightarrow> Inl (''Failed to fetch customer analytics: '' @ errorMessage error)
      | Inr result \<Rightarrow> Inr result)"


section \<open>get-inventory-levels\<close>

record getInventoryLevels_input =
  il_limit :: int
  il_sku :: "string option"
  il_productId :: "string option"

record inventory_variables =
  iv_first :: int
  iv_query :: "string option"

text \<open>\<open>s.split(c)\<close> for a one-character separator.\<close>

fun splitOn :: "char \<Rightarrow> string \<Rightarrow> string list" where
  "splitOn c [] = [[]]"
| "splitOn c (x # xs) =
     (if x = c then [] # splitOn c xs
      else (case splitOn c xs of
              [] \<Rightarrow> [[x]]
            | piece # pieces \<Rightarrow> (x # piece) # pieces))"

text \<open>\<open>pieces.pop()\<close> printed by a template literal: the last piece, \<open>undefined\<close> if there is none.\<close>

definition popText :: "string list \<Rightarrow> string" where
  "popText pieces = (case rev pieces of [] \<Rightarrow> ''undefined'' | piece # _ \<Rightarrow> piece)"

text \<open>Build query filter.\<close>

definition inventoryQueryFilter :: "getInventoryLevels_input \<Rightarrow> string option" where
  "inventoryQueryFilter input =
     (if truthyString (il_sku input) then Some (''sku:'' @ the (il_sku input))
      else if truthyString (il_productId input) then
        (let productId = the (il_productId input);
             numericId = (if CHR ''/'' \<in> set productId
                          then popText (splitOn (CHR ''/'') productId)
                          else productId)
         in Some (''product_id:'' @ numericId))
      else None)"

definition inventoryVariables :: "getInventoryLevels_input \<Rightarrow> inventory_variables" where
  "inventoryVariables input = \<lparr>iv_first = il_limit input, iv_query = inventoryQueryFilter input\<rparr>"

text \<open>The response.\<close>

record quantity_entry =
  q_name :: string
  q_quantity :: int

record location_ref =
  lr_id :: string
  lr_name :: string

record level_node =
  ln_id :: string
  ln_quantities :: "quantity_entry list"
  ln_location :: location_ref

record product_ref =
  pr_id :: string
  pr_title :: string

record variant_node =
  vn_id :: string
  vn_title :: string
  vn_displayName :: string
  vn_product :: product_ref

record item_node =
  in_id :: string
  in_sku :: "string option"
  in_tracked :: bool
  in_inventoryLevels :: "level_node connection"
  in_variant :: "variant_node option"

record inventory_data =
  d_inventoryItems :: "item_node connection"

text \<open>The result.\<close>

record inventory_level =
  locationId :: string
  locationName :: string
  available :: int
  incoming :: int
  committed :: int
  reserved :: int
  onHand :: int

record inventory_variant =
  va_id :: string
  va_title :: string
  va_displayName :: string
  va_productId :: string
  va_productTitle :: string

record inventory_item =
  ii_id :: string
  ii_sku :: "string option"
  ii_tracked :: bool
  ii_variant :: "inventory_variant option"
  inventoryLevels :: "inventory_level list"
  totalAvailable :: int
  totalOnHand :: int

record inventory_result =
  inventoryItems :: "inventory_item list"
  itemCount :: int

text \<open>
  \<open>quantityMap\<close> starts empty and receives one assignment per quantity entry, a later
  entry of the same name replacing the earlier one. Only the five names below are read
  from it, none of which an object inherits, so it is a map from names to numbers.
\<close>

definition quantityMap :: "quantity_entry list \<Rightarrow> (string \<rightharpoonup> int)" where
  "quantityMap quantities = foldl (\<lambda>m q. m(q_name q \<mapsto> q_quantity q)) Map.empty quantities"

text \<open>\<open>quantityMap[name] || 0\<close>\<close>

definition quantityOrZero :: "(string \<rightharpoonup> int) \<Rightarrow> string \<Rightarrow> int" where
  "quantityOrZero m name = (case m name of None \<Rightarrow> 0 | Some q \<Rightarrow> if q = 0 then 0 else q)"

text \<open>Format inventory levels by location.\<close>

definition formatLevel :: "level_node edge \<Rightarrow> inventory_level" where
  "formatLevel levelEdge =
     (let level = node levelEdge;
          m = quantityMap (ln_quantities level)
      in \<lparr>locationId = lr_id (ln_location level),
          locationName = lr_name (ln_location level),
          available = quantityOrZero m ''available'',
          incoming = quantityOrZero m ''incoming'',
          committed = quantityOrZero m ''committed'',
          reserved = quantityOrZero m ''reserved'',
          onHand = quantityOrZero m ''on_hand''\<rparr>)"

text \<open>Format inventory items.\<close>

definition formatItem :: "item_node edge \<Rightarrow> inventory_item" where
  "formatItem itemEdge =
     (let item = node itemEdge;
          levels = map formatLevel (edges (in_inventoryLevels item))
      in \<lparr>ii_id = in_id item,
          ii_sku = in_sku item,
          ii_tracked = in_tracked item,
          ii_variant =
            (case in_variant item of
               Some v \<Rightarrow>
                 Some \<lparr>va_id = vn_id v, va_title = vn_title v,
                       va_displayName = vn_displayName v,
                       va_productId = pr_id (vn_product v),
                       va_productTitle = pr_title (vn_product v)\<rparr>
             | None \<Rightarrow> None),
          inventoryLevels = levels,
          totalAvailable = foldl (\<lambda>sum l. sum + available l) 0 levels,
          totalOnHand = foldl (\<lambda>sum l. sum + onHand l) 0 levels\<rparr>)"

definition getInventoryLevels_try ::
  "getInventoryLevels_input \<Rightarrow> (inventory_variables \<Rightarrow> thrown + inventory_data)
     \<Rightarrow> thrown + inventory_result"
where
  "getInventoryLevels_try input request =
     (let variables = inventoryVariables input
      in case request variables of
           Inl error \<Rightarrow> Inl error
         | Inr data \<Rightarrow>
             (let items = map formatItem (edges (d_inventoryItems data))
              in Inr \<lparr>inventoryItems = items, itemCount = int (length items)\<rparr>))"

definition getInventoryLevels_execute ::
  "getInventoryLevels_input \<Rightarrow> (inventory_variables \<Rightarrow> thrown + inventory_data)
     \<Rightarrow> string + inventory_result"
where
  "getInventoryLevels_execute input request =
     (case getInventoryLevels_try input request of
        Inl error \<Rightarrow> Inl (''Failed to fetch inventory levels: '' @ errorMessage error)
      | Inr result \<Rightarrow> Inr result)"


section \<open>get-locations\<close>

record getLocations_input =
  gl_limit :: int
  gl_includeInactive :: bool

record locations_variables =
  lv_first :: int
  lv_includeInactive :: bool

record location_address =
  la_address1 :: "string option"
  la_address2 :: "string option"
  la_city :: "string option"
  la_province :: "string option"
  la_provinceCode :: "string option"
  la_country :: "string option"
  la_countryCode :: "string option"
  la_zip :: "string option"
  la_phone :: "string option"

text \<open>A location has the same fields in the response and in the result.\<close>

record location =
  loc_id :: string
  loc_name :: string
  loc_isActive :: bool
  loc_fulfillsOnlineOrders :: bool
  loc_hasActiveInventory :: bool
  loc_shipsInventory :: bool
  loc_address :: location_address

record locations_data =
  d_locations :: "location connection"

record locations_result =
  locations :: "location list"
  locationCount :: int

text \<open>Format locations.\<close>

definition formatLocation :: "location edge \<Rightarrow> location" where
  "formatLocation locEdge =
     (let loc = node locEdge
      in \<lparr>loc_id = loc_id loc,
          loc_name = loc_name loc,
          loc_isActive = loc_isActive loc,
          loc_fulfillsOnlineOrders = loc_fulfillsOnlineOrders loc,
          loc_hasActiveInventory = loc_hasActiveInventory loc,
          loc_shipsInventory = loc_shipsInventory loc,
          loc_address =
            \<lparr>la_address1 = la_address1 (loc_address loc),
             la_address2 = la_address2 (loc_address loc),
             la_city = la_city (loc_address loc),
             la_province = la_province (loc_address loc),
             la_provinceCode = la_provinceCode (loc_address loc),
             la_country = la_country (loc_address loc),
             la_countryCode = la_countryCode (loc_address loc),
             la_zip = la_zip (loc_address loc),
             la_phone = la_phone (loc_address loc)\<rparr>\<rparr>)"

definition getLocations_try ::
  "getLocations_input \<Rightarrow> (locations_variables \<Rightarrow> thrown + locations_data)
     \<Rightarrow> thrown + locations_result"
where
  "getLocations_try input request =
     (let variables = \<lparr>lv_first = gl_limit input, lv_includeInactive = gl_includeInactive input\<rparr>
      in case request variables of
           Inl error \<Rightarrow> Inl error
         | Inr data \<Rightarrow>
             (let locs = map formatLocation (edges (d_locations data))
              in Inr \<lparr>locations = locs, locationCount = int (length locs)\<rparr>))"

definition getLocations_execute ::
  "getLocations_input \<Rightarrow> (locations_variables \<Rightarrow> thrown + locations_data)
     \<Rightarrow> string + locations_result"
where
  "getLocations_execute input request =
     (case getLocations_try input request of
        Inl error \<Rightarrow> Inl (''Failed to fetch locations: '' @ errorMessage error)
      | Inr result \<Rightarrow> Inr result)"


section \<open>get-collections\<close>

record getCollections_input =
  gc_limit :: int
  gc_searchQuery :: "string option"
  gc_collectionType :: string

record collections_variables =
  cv_first :: int
  cv_query :: "string option"

text \<open>Build query filter.\<close>

definition collectionsQueryFilter :: "getCollections_input \<Rightarrow> string option" where
  "collectionsQueryFilter input =
     (let filters0 = [];
          filters1 = (if truthyString (gc_searchQuery input)
                      then filters0 @ [''title:*'' @ the (gc_searchQuery input) @ ''*'']
                      else filters0);
          filters2 = (if gc_collectionType input = ''smart''
                      then filters1 @ [''collection_type:smart'']
                      else if gc_collectionType input = ''manual''
                      then filters1 @ [''collection_type:custom'']
                      else filters1)
      in if length filters2 > 0 then Some (joinJS '' AND '' (map JString filters2)) else None)"

record products_count =
  pc_count :: int

record collection_image =
  ci_url :: string
  ci_altText :: "string option"

record collection_rule =
  cr_column :: string
  cr_relation :: string
  cr_condition :: string

text \<open>A rule set has the same fields in the response and in the result.\<close>

record rule_set =
  rs_appliedDisjunctively :: bool
  rs_rules :: "collection_rule list"

record collection_node =
  cn_id :: string
  cn_title :: string
  cn_handle :: string
  cn_description :: "string option"
  cn_descriptionHtml :: "string option"
  cn_productsCount :: products_count
  cn_sortOrder :: string
  cn_templateSuffix :: "string option"
  cn_updatedAt :: string
  cn_image :: "collection_image option"
  cn_ruleSet :: "rule_set option"

record collections_data =
  d_collections :: "collection_node connection"

record collection =
  co_id :: string
  co_title :: string
  co_handle :: string
  co_description :: "string option"
  co_productCount :: int
  co_sortOrder :: string
  co_templateSuffix :: "string option"
  co_updatedAt :: string
  co_imageUrl :: "string option"
  co_imageAltText :: "string option"
  co_collectionType :: string
  co_rules :: "rule_set option"

record collections_result =
  collections :: "collection list"
  collectionCount :: int

text \<open>\<open>s || null\<close> for an optional string.\<close>

definition orNull :: "string option \<Rightarrow> string option" where
  "orNull s = (if truthyString s then s else None)"

text \<open>Format collections.\<close>

definition formatCollection :: "collection_node edge \<Rightarrow> collection" where
  "formatCollection colEdge =
     (let col = node colEdge;
          isSmartCollection =
            (case cn_ruleSet col of None \<Rightarrow> False | Some rs \<Rightarrow> length (rs_rules rs) > 0)
      in \<lparr>co_id = cn_id col,
          co_title = cn_title col,
          co_handle = cn_handle col,
          co_description = cn_description col,
          co_productCount = pc_count (cn_productsCount col),
          co_sortOrder = cn_sortOrder col,
          co_templateSuffix = cn_templateSuffix col,
          co_updatedAt = cn_updatedAt col,
          co_imageUrl =
            orNull (case cn_image col of None \<Rightarrow> None | Some img \<Rightarrow> Some (ci_url img)),
          co_imageAltText =
            orNull (case cn_image col of None \<Rightarrow> None | Some img \<Rightarrow> ci_altText img),
          co_collectionType = (if isSmartCollection then ''smart'' else ''manual''),
          co_rules =
            (if isSmartCollection
             then Some \<lparr>rs_appliedDisjunctively = rs_appliedDisjunctively (the (cn_ruleSet col)),
                        rs_rules = rs_rules (the (cn_ruleSet col))\<rparr>
             else None)\<rparr>)"

definition getCollections_try ::
  "getCollections_input \<Rightarrow> (collections_variables \<Rightarrow> thrown + collections_data)
     \<Rightarrow> thrown + collections_result"
where
  "getCollections_try input request =
     (let variables = \<lparr>cv_first = gc_limit input, cv_query = collectionsQueryFilter input\<rparr>
      in case request variables of
           Inl error \<Rightarrow> Inl error
         | Inr data \<Rightarrow>
             (let cols = map formatCollection (edges (d_collections data))
              in Inr \<lparr>collections = cols, collectionCount = int (length cols)\<rparr>))"

definition getCollections_execute ::
  "getCollections_input \<Rightarrow> (collections_variables \<Rightarrow> thrown + collections_data)
     \<Rightarrow> string + collections_result"
where
  "getCollections_execute input request =
     (case getCollections_try input request of
        Inl error \<Rightarrow> Inl (''Failed to fetch collections: '' @ errorMessage error)
      | Inr result \<Rightarrow> Inr result)"


section \<open>search-orders\<close>

record searchOrders_input =
  so_query :: string
  so_limit :: int
  so_sortKey :: string
  so_reverse :: bool

record orders_variables =
  ov_first :: int
  ov_query :: string
  ov_sortKey :: string
  ov_reverse :: bool

text \<open>An amount with its currency has the same fields in the response and in the result.\<close>

record money =
  amount :: string
  currencyCode :: string

record money_set =
  shopMoney :: money

text \<open>So have the customer and the shipping address of an order.\<close>

record order_customer =
  oc_id :: string
  oc_firstName :: "string option"
  oc_lastName :: "string option"
  oc_email :: "string option"

record order_address =
  oa_city :: "string option"
  oa_province :: "string option"
  oa_country :: "string option"

record line_item_node =
  li_title :: string
  li_quantity :: int
  li_originalTotalSet :: money_set

record order_node =
  on_id :: string
  on_name :: string
  on_createdAt :: string
  on_updatedAt :: string
  on_processedAt :: "string option"
  on_displayFinancialStatus :: string
  on_displayFulfillmentStatus :: string
  on_confirmed :: bool
  on_closed :: bool
  on_cancelledAt :: "string option"
  on_totalPriceSet :: money_set
  on_subtotalPriceSet :: money_set
  on_totalTaxSet :: money_set
  on_totalShippingPriceSet :: money_set
  on_customer :: "order_customer option"
  on_shippingAddress :: "order_address option"
  on_tags :: "string list"
  on_note :: "string option"
  on_lineItems :: "line_item_node connection"

record orders_data =
  d_orders :: "order_node connection"

record line_item =
  ol_title :: string
  ol_quantity :: int
  ol_totalPrice :: money

record order_summary =
  or_id :: string
  or_name :: string
  or_createdAt :: string
  or_updatedAt :: string
  or_processedAt :: "string option"
  or_financialStatus :: string
  or_fulfillmentStatus :: string
  or_confirmed :: bool
  or_closed :: bool
  or_cancelledAt :: "string option"
  or_totalPrice :: money
  or_subtotalPrice :: money
  or_totalTax :: money
  or_totalShipping :: money
  or_customer :: "order_customer option"
  or_shippingAddress :: "order_address option"
  or_tags :: "string list"
  or_note :: "string option"
  or_lineItems :: "line_item list"

record orders_result =
  res_query :: string
  res_sortKey :: string
  res_reverse :: bool
  orders :: "order_summary list"
  orderCount :: int

definition flatMoney :: "money_set \<Rightarrow> money" where
  "flatMoney ms = \<lparr>amount = amount (shopMoney ms), currencyCode = currencyCode (shopMoney ms)\<rparr>"

text \<open>Format orders.\<close>

definition formatOrder :: "order_node edge \<Rightarrow> order_summary" where
  "formatOrder orderEdge =
     (let order = node orderEdge
      in \<lparr>or_id = on_id order,
          or_name = on_name order,
          or_createdAt = on_createdAt order,
          or_updatedAt = on_updatedAt order,
          or_processedAt = on_processedAt order,
          or_financialStatus = on_displayFinancialStatus order,
          or_fulfillmentStatus = on_displayFulfillmentStatus order,
          or_confirmed = on_confirmed order,
          or_closed = on_closed order,
          or_cancelledAt = on_cancelledAt order,
          or_totalPrice = flatMoney (on_totalPriceSet order),
          or_subtotalPrice = flatMoney (on_subtotalPriceSet order),
          or_totalTax = flatMoney (on_totalTaxSet order),
          or_totalShipping = flatMoney (on_totalShippingPriceSet order),
          or_customer =
            (case on_customer order of
               Some c \<Rightarrow>
                 Some \<lparr>oc_id = oc_id c, oc_firstName = oc_firstName c,
                       oc_lastName = oc_lastName c, oc_email = oc_email c\<rparr>
             | None \<Rightarrow> None),
          or_shippingAddress =
            (case on_shippingAddress order of
               Some a \<Rightarrow>
                 Some \<lparr>oa_city = oa_city a, oa_province = oa_province a,
                       oa_country = oa_country a\<rparr>
             | None \<Rightarrow> None),
          or_tags = on_tags order,
          or_note = on_note order,
          or_lineItems =
            map (\<lambda>li. \<lparr>ol_title = li_title (node li),
                        ol_quantity = li_quantity (node li),
                        ol_totalPrice = flatMoney (li_originalTotalSet (node li))\<rparr>)
              (edges (on_lineItems order))\<rparr>)"

definition searchOrders_try ::
  "searchOrders_input \<Rightarrow> (orders_variables \<Rightarrow> thrown + orders_data) \<Rightarrow> thrown + orders_result"
where
  "searchOrders_try input request =
     (let searchQuery = so_query input; sortKey = so_sortKey input; reverse = so_reverse input;
          variables = \<lparr>ov_first = so_limit input, ov_query = searchQuery,
                       ov_sortKey = sortKey, ov_reverse = reverse\<rparr>
      in case request variables of
           Inl error \<Rightarrow> Inl error
         | Inr data \<Rightarrow>
             (let os = map formatOrder (edges (d_orders data))
              in Inr \<lparr>res_query = searchQuery, res_sortKey = sortKey, res_reverse = reverse,
                      orders = os, orderCount = int (length os)\<rparr>))"

definition searchOrders_execute ::
  "searchOrders_input \<Rightarrow> (orders_variables \<Rightarrow> thrown + orders_data) \<Rightarrow> string + orders_result"
where
  "searchOrders_execute input request =
     (case searchOrders_try input request of
        Inl error \<Rightarrow> Inl (''Failed to search orders: '' @ errorMessage error)
      | Inr result \<Rightarrow> Inr result)"


section \<open>Properties of the query helpers\<close>

lemma foldl_join_concat:
  "foldl (\<lambda>R e. R @ sep @ elementText e) acc xs
   = acc @ concat (map (\<lambda>e. sep @ elementText e) xs)"
  by (induction xs arbitrary: acc) simp_all

lemma joinJS_snoc:
  "joinJS sep (xs @ [y])
   = (if xs = [] then elementText y else joinJS sep xs @ sep @ elementText y)"
  by (cases xs) simp_all

lemma joinJS_Cons_Cons:
  "joinJS sep (x # y # ys) = elementText x @ sep @ joinJS sep (y # ys)"
  by (simp add: foldl_join_concat)

lemma joinJS_strings: "joinJS sep (map JString xs) = joinedWith sep xs"
proof (induction sep xs rule: joinedWith.induct)
  case (1 sep)
  show ?case by simp
next
  case (2 sep x)
  show ?case by simp
next
  case (3 sep x y ys)
  have "joinJS sep (map JString (x # y # ys)) = x @ sep @ joinJS sep (map JString (y # ys))"
    using joinJS_Cons_Cons [of sep "JString x" "JString y" "map JString ys"] by simp
  with 3 show ?case by simp
qed

lemma getProperty_unknown:
  "k \<notin> set (map fst own) \<Longrightarrow> k \<notin> set objectPrototypeKeys \<Longrightarrow> getProperty own k = JUndefined"
  by (simp add: getProperty_def map_of_eq_None_iff [THEN iffD2])




text \<open>The builder's pushes and join amount to the clause sequence of the specification.\<close>

lemma truthyNumber_iff:
  "truthyNumber (Some n) \<longleftrightarrow> \<not> (equalsZero n \<or> n = NaN)"
  by (cases n) simp_all

lemma buildShopifyQLQuery_closed_form:
  "buildShopifyQLQuery options = queryBeforeLimit options @ optionalText (limitClause options)"
  by (cases "opt_where options"; cases "opt_groupBy options"; cases "opt_orderBy options";
      cases "opt_limit options")
     (simp_all add: buildShopifyQLQuery_def queryBeforeLimit_def whereClause_def periodClause_def
       groupByClause_def orderByClause_def limitClause_def Let_def joinJS_snoc joinJS_strings
       truthyNumber_iff)

text \<open>The text printed for a safe integer is the numeral of that integer.\<close>

lemma digitValue_digitChar: "d < 10 \<Longrightarrow> digitValue (digitChar d) = Some d"
proof -
  assume "d < 10"
  then have "d \<in> {0, 1, 2, 3, 4, 5, 6, 7, 8, 9}" by auto
  then show ?thesis
    by (auto simp: digitValue_def digitChar_def)
qed

lemma digitsValue_snoc:
  "digitsValue acc (cs @ [c]) =
     (case digitsValue acc cs of
        None \<Rightarrow> None
      | Some v \<Rightarrow> (case digitValue c of None \<Rightarrow> None | Some d \<Rightarrow> Some (10 * v + d)))"
  by (induction cs arbitrary: acc) (simp_all split: option.splits)

lemma digitsValue_digits: "digitsValue 0 (digits n) = Some n"
proof (induction n rule: digits.induct)
  case (1 n)
  show ?case
  proof (cases "n < 10")
    case True
    then show ?thesis
      by (simp add: digits.simps [of n] digitValue_digitChar)
  next
    case False
    with 1 have "digitsValue 0 (digits (n div 10)) = Some (n div 10)" by simp
    with False show ?thesis
      by (simp add: digits.simps [of n] digitsValue_snoc digitValue_digitChar)
  qed
qed

lemma digits_nonempty: "digits n \<noteq> []"
  by (simp add: digits.simps [of n])

lemma hd_digits_nonzero: "n \<noteq> 0 \<Longrightarrow> hd (digits n) \<noteq> CHR ''0''"
proof (induction n rule: digits.induct)
  case (1 n)
  show ?case
  proof (cases "n < 10")
    case True
    with 1 have "n \<in> {1, 2, 3, 4, 5, 6, 7, 8, 9}" by auto
    then show ?thesis
      by (auto simp: digits.simps [of n] digitChar_def)
  next
    case False
    then have "n div 10 \<noteq> 0" by simp
    with 1 False have "hd (digits (n div 10)) \<noteq> CHR ''0''" by simp
    with False show ?thesis
      by (simp add: digits.simps [of n] digits_nonempty)
  qed
qed

lemma decimalNat_digits: "decimalNat (digits n) = Some n"
proof (cases "n = 0")
  case True
  then show ?thesis
    by (simp add: decimalNat_def digits.simps [of 0] digitChar_def digitValue_def)
next
  case False
  then show ?thesis
    by (simp add: decimalNat_def digits_nonempty hd_digits_nonzero digitsValue_digits)
qed

lemma hd_digits_not_minus: "hd (digits n) \<noteq> CHR ''-''"
proof -
  obtain c cs where cs: "digits n = c # cs"
    using digits_nonempty [of n] by (cases "digits n") auto
  have "digitsValue 0 (c # cs) = Some n"
    using digitsValue_digits [of n] cs by simp
  then have "digitValue c \<noteq> None"
    by (auto split: option.splits)
  then have "c \<noteq> CHR ''-''"
    by (auto simp: digitValue_def)
  with cs show ?thesis by simp
qed

lemma decimalValue_numberToString:
  "decimalValue (numberToString (SafeInteger negative magnitude))
   = Some (if negative then - int (unat magnitude) else int (unat magnitude))"
proof -
  obtain c cs where cs: "digits (unat magnitude) = c # cs"
    using digits_nonempty [of "unat magnitude"] by (cases "digits (unat magnitude)") auto
  with hd_digits_not_minus [of "unat magnitude"] have c: "c \<noteq> CHR ''-''" by simp
  have plain: "decimalValue (digits (unat magnitude)) = Some (int (unat magnitude))"
    using decimalNat_digits [of "unat magnitude"] c cs
    by (simp add: decimalValue_def)
  show ?thesis
  proof (cases "negative \<and> magnitude \<noteq> 0")
    case True
    then have "unat magnitude \<noteq> 0" by (simp add: unat_eq_0)
    with True show ?thesis
      by (simp add: decimalValue_def decimalNat_digits)
  next
    case False
    then show ?thesis using plain by auto
  qed
qed

text \<open>
  C1: the sales example of the specification yields exactly the documented query text,
  with no WHERE clause.
\<close>

theorem buildShopifyQLQuery_sales_example:
  "buildShopifyQLQuery
     \<lparr>opt_from = ''sales'', opt_show = [''total_sales'', ''orders''], opt_where = None,
      opt_groupBy = Some ''day'', opt_period = ''last_7_days'', opt_orderBy = None,
      opt_limit = Some (SafeInteger False 50)\<rparr>
   = ''FROM sales SHOW total_sales, orders SINCE -7d GROUP BY day ORDER BY day LIMIT 50''"
  by (simp add: buildShopifyQLQuery_def periodToShopifyQL_def groupByToShopifyQL_def
      groupByToOrderBy_def periodMap_def groupByMap_def orderByMap_def getProperty_def
      js_or_def digits.simps digitChar_def)

text \<open>
  Every supported period token maps to a non-empty clause that starts with SINCE or
  DURING, and a token that is neither supported nor the name of a property inherited from
  \<open>Object.prototype\<close> maps to the 30-day default.
\<close>

lemma periodToShopifyQL_supported:
  "p \<in> set [''today'', ''yesterday'', ''last_7_days'', ''last_30_days'', ''last_90_days'',
             ''last_month'', ''this_month'', ''this_year'', ''last_year''] \<Longrightarrow>
   \<exists>c. periodToShopifyQL p = JString c \<and> c \<noteq> [] \<and>
       (take 5 c = ''SINCE'' \<or> take 6 c = ''DURING'')"
  by (auto simp: periodToShopifyQL_def js_or_def getProperty_def periodMap_def)

lemma periodToShopifyQL_fallback:
  "p \<notin> set (map fst periodMap) \<Longrightarrow> p \<notin> set objectPrototypeKeys \<Longrightarrow>
   periodToShopifyQL p = JString ''SINCE -30d''"
  by (simp add: periodToShopifyQL_def js_or_def getProperty_unknown)

text \<open>
  C2: \<open>periodToShopifyQL\<close> should return the default \<open>SINCE -30d\<close> for every string
  outside the supported tokens. The token \<open>constructor\<close> is outside them, yet the lookup
  \<open>periodMap[period]\<close> finds \<open>Object.prototype.constructor\<close> through the prototype chain;
  that function is truthy, so \<open>||\<close> returns it in place of the default.
\<close>

theorem periodToShopifyQL_inherited_key:
  "''constructor'' \<notin> set (map fst periodMap) \<and>
   periodToShopifyQL ''constructor'' = JInherited ''constructor'' \<and>
   periodToShopifyQL ''constructor'' \<noteq> JString ''SINCE -30d''"
  by (simp add: periodToShopifyQL_def js_or_def getProperty_def periodMap_def
      objectPrototypeKeys_def)

text \<open>
  C8 as stated fails: grouping by \<open>product\<close> groups on the column \<open>product_title\<close>, but
  the default ordering is on \<open>total_sales\<close>, not on that same column.
\<close>

theorem groupBy_product_orders_by_other_column:
  "groupByToShopifyQL ''product'' = JString ''GROUP BY product_title'' \<and>
   groupByToOrderBy ''product'' = JString ''ORDER BY total_sales DESC'' \<and>
   groupByToOrderBy ''product'' \<noteq> JString ''ORDER BY product_title'' \<and>
   groupByToOrderBy ''product'' \<noteq> JString ''ORDER BY product_title DESC''"
  by (simp add: groupByToShopifyQL_def groupByToOrderBy_def js_or_def getProperty_def
      groupByMap_def orderByMap_def)

text \<open>
  C8, amended: the time dimensions \<open>day\<close>, \<open>week\<close> and \<open>month\<close> are grouped and ordered
  on the same column; \<open>product\<close>, \<open>product_type\<close>, \<open>channel\<close>, \<open>region\<close> and
  \<open>customer_type\<close> are grouped on their own column and ordered by \<open>total_sales DESC\<close>;
  a token that is neither of these nor the name of a property inherited from
  \<open>Object.prototype\<close> falls back to \<open>GROUP BY day\<close> and \<open>ORDER BY day\<close>.
\<close>

theorem groupBy_clauses:
  "groupByToShopifyQL ''day'' = JString ''GROUP BY day'' \<and>
   groupByToOrderBy ''day'' = JString ''ORDER BY day'' \<and>
   groupByToShopifyQL ''week'' = JString ''GROUP BY week'' \<and>
   groupByToOrderBy ''week'' = JString ''ORDER BY week'' \<and>
   groupByToShopifyQL ''month'' = JString ''GROUP BY month'' \<and>
   groupByToOrderBy ''month'' = JString ''ORDER BY month'' \<and>
   groupByToShopifyQL ''product'' = JString ''GROUP BY product_title'' \<and>
   groupByToOrderBy ''product'' = JString ''ORDER BY total_sales DESC'' \<and>
   groupByToShopifyQL ''product_type'' = JString ''GROUP BY product_type'' \<and>
   groupByToOrderBy ''product_type'' = JString ''ORDER BY total_sales DESC'' \<and>
   groupByToShopifyQL ''channel'' = JString ''GROUP BY sales_channel'' \<and>
   groupByToOrderBy ''channel'' = JString ''ORDER BY total_sales DESC'' \<and>
   groupByToShopifyQL ''region'' = JString ''GROUP BY billing_country'' \<and>
   groupByToOrderBy ''region'' = JString ''ORDER BY total_sales DESC'' \<and>
   groupByToShopifyQL ''customer_type'' = JString ''GROUP BY customer_type'' \<and>
   groupByToOrderBy ''customer_type'' = JString ''ORDER BY total_sales DESC'' \<and>
   (g \<notin> set [''day'', ''week'', ''month'', ''product'', ''product_type'', ''channel'',
               ''region'', ''customer_type''] \<and>
    g \<notin> set objectPrototypeKeys \<longrightarrow>
      groupByToShopifyQL g = JString ''GROUP BY day'' \<and>
      groupByToOrderBy g = JString ''ORDER BY day'')"
proof -
  have known:
    "groupByToShopifyQL ''day'' = JString ''GROUP BY day''"
    "groupByToOrderBy ''day'' = JString ''ORDER BY day''"
    "groupByToShopifyQL ''week'' = JString ''GROUP BY week''"
    "groupByToOrderBy ''week'' = JString ''ORDER BY week''"
    "groupByToShopifyQL ''month'' = JString ''GROUP BY month''"
    "groupByToOrderBy ''month'' = JString ''ORDER BY month''"
    "groupByToShopifyQL ''product'' = JString ''GROUP BY product_title''"
    "groupByToOrderBy ''product'' = JString ''ORDER BY total_sales DESC''"
    "groupByToShopifyQL ''product_type'' = JString ''GROUP BY product_type''"
    "groupByToOrderBy ''product_type'' = JString ''ORDER BY total_sales DESC''"
    "groupByToShopifyQL ''channel'' = JString ''GROUP BY sales_channel''"
    "groupByToOrderBy ''channel'' = JString ''ORDER BY total_sales DESC''"
    "groupByToShopifyQL ''region'' = JString ''GROUP BY billing_country''"
    "groupByToOrderBy ''region'' = JString ''ORDER BY total_sales DESC''"
    "groupByToShopifyQL ''customer_type'' = JString ''GROUP BY customer_type''"
    "groupByToOrderBy ''customer_type'' = JString ''ORDER BY total_sales DESC''"
    by (simp_all add: groupByToShopifyQL_def groupByToOrderBy_def js_or_def getProperty_def
        groupByMap_def orderByMap_def)
  have group_keys: "map fst groupByMap = [''day'', ''week'', ''month'', ''product'',
      ''product_type'', ''channel'', ''region'', ''customer_type'']"
    by (simp add: groupByMap_def)
  have order_keys: "map fst orderByMap = [''day'', ''week'', ''month'', ''product'',
      ''product_type'', ''channel'', ''region'', ''customer_type'']"
    by (simp add: orderByMap_def)
  have fallback:
    "groupByToShopifyQL g = JString ''GROUP BY day'' \<and>
     groupByToOrderBy g = JString ''ORDER BY day''"
    if "g \<notin> set [''day'', ''week'', ''month'', ''product'', ''product_type'', ''channel'',
                   ''region'', ''customer_type'']"
      and "g \<notin> set objectPrototypeKeys"
  proof -
    from that have "getProperty groupByMap g = JUndefined" "getProperty orderByMap g = JUndefined"
      by (simp_all only: getProperty_unknown group_keys order_keys not_False_eq_True)
    then show ?thesis
      by (simp add: groupByToShopifyQL_def groupByToOrderBy_def js_or_def)
  qed
  from known fallback show ?thesis by blast
qed

theorem groupBy_clauses_witness:
  "''hour'' \<notin> set [''day'', ''week'', ''month'', ''product'', ''product_type'', ''channel'',
               ''region'', ''customer_type''] \<and>
   ''hour'' \<notin> set objectPrototypeKeys \<and>
   groupByToShopifyQL ''hour'' = JString ''GROUP BY day'' \<and>
   groupByToOrderBy ''hour'' = JString ''ORDER BY day''"
proof -
  have h: "''hour'' \<notin> set [''day'', ''week'', ''month'', ''product'', ''product_type'',
      ''channel'', ''region'', ''customer_type''] \<and> ''hour'' \<notin> set objectPrototypeKeys"
    by (simp add: objectPrototypeKeys_def)
  with groupBy_clauses [of "''hour''"] show ?thesis by blast
qed




text \<open>
  C10 as stated fails: \<open>NaN\<close> is a limit that is not equal to 0, yet it is falsy, and the
  query ends without a LIMIT clause.
\<close>

theorem buildShopifyQLQuery_limit_NaN:
  "\<not> equalsZero NaN \<and>
   buildShopifyQLQuery \<lparr>opt_from = ''sales'', opt_show = [''orders''], opt_where = None,
      opt_groupBy = None, opt_period = ''today'', opt_orderBy = None, opt_limit = Some NaN\<rparr>
     = ''FROM sales SHOW orders SINCE today'' \<and>
   buildShopifyQLQuery \<lparr>opt_from = ''sales'', opt_show = [''orders''], opt_where = None,
      opt_groupBy = None, opt_period = ''today'', opt_orderBy = None, opt_limit = Some NaN\<rparr>
     \<noteq> ''FROM sales SHOW orders SINCE today LIMIT NaN''"
  by (simp add: buildShopifyQLQuery_def periodToShopifyQL_def periodMap_def getProperty_def
      js_or_def)

text \<open>
  C10, amended: a limit that is 0 or \<open>NaN\<close> is treated like an omitted limit, the query
  then ends with the ordering clause and carries no LIMIT clause; any other limit \<open>n\<close>
  appends \<open>LIMIT n\<close> to that same query, \<open>n\<close> printed as JavaScript prints the number:
  for a safe integer the text is its decimal numeral, for any other number the text that
  stands for it.
\<close>

theorem buildShopifyQLQuery_limit:
  "(opt_limit options = None \<or> opt_limit options = Some NaN \<or>
    (\<exists>n. opt_limit options = Some n \<and> equalsZero n) \<longrightarrow>
      buildShopifyQLQuery options = queryBeforeLimit options) \<and>
   (\<forall>negative magnitude.
      opt_limit options = Some (SafeInteger negative magnitude) \<and> magnitude \<noteq> 0 \<longrightarrow>
        buildShopifyQLQuery options
          = queryBeforeLimit options @ '' LIMIT ''
              @ numberToString (SafeInteger negative magnitude) \<and>
        decimalValue (numberToString (SafeInteger negative magnitude))
          = Some (if negative then - int (unat magnitude) else int (unat magnitude))) \<and>
   (\<forall>printed. opt_limit options = Some (OtherNumber printed) \<longrightarrow>
      buildShopifyQLQuery options = queryBeforeLimit options @ '' LIMIT '' @ printed)"
proof -
  have falsy: "buildShopifyQLQuery options = queryBeforeLimit options"
    if "opt_limit options = None \<or> opt_limit options = Some NaN \<or>
        (\<exists>n. opt_limit options = Some n \<and> equalsZero n)"
    using that by (auto simp: buildShopifyQLQuery_closed_form limitClause_def)
  have safe: "buildShopifyQLQuery options
        = queryBeforeLimit options @ '' LIMIT ''
            @ numberToString (SafeInteger negative magnitude) \<and>
      decimalValue (numberToString (SafeInteger negative magnitude))
        = Some (if negative then - int (unat magnitude) else int (unat magnitude))"
    if "opt_limit options = Some (SafeInteger negative magnitude)" "magnitude \<noteq> 0"
    for negative magnitude
    using that
    by (simp add: buildShopifyQLQuery_closed_form limitClause_def decimalValue_numberToString
        del: numberToString.simps)
  have other: "buildShopifyQLQuery options = queryBeforeLimit options @ '' LIMIT '' @ printed"
    if "opt_limit options = Some (OtherNumber printed)" for printed
    using that by (simp add: buildShopifyQLQuery_closed_form limitClause_def)
  from falsy safe other show ?thesis by blast
qed

theorem buildShopifyQLQuery_limit_witness:
  "buildShopifyQLQuery \<lparr>opt_from = ''sales'', opt_show = [''orders''], opt_where = None,
      opt_groupBy = None, opt_period = ''today'', opt_orderBy = None,
      opt_limit = Some (SafeInteger False 0)\<rparr>
     = ''FROM sales SHOW orders SINCE today'' \<and>
   buildShopifyQLQuery \<lparr>opt_from = ''sales'', opt_show = [''orders''], opt_where = None,
      opt_groupBy = None, opt_period = ''today'', opt_orderBy = None,
      opt_limit = Some (SafeInteger False 120)\<rparr>
     = ''FROM sales SHOW orders SINCE today LIMIT 120'' \<and>
   decimalValue ''120'' = Some 120 \<and>
   buildShopifyQLQuery \<lparr>opt_from = ''sales'', opt_show = [''orders''], opt_where = None,
      opt_groupBy = None, opt_period = ''today'', opt_orderBy = None,
      opt_limit = Some (SafeInteger True 7)\<rparr>
     = ''FROM sales SHOW orders SINCE today LIMIT -7'' \<and>
   decimalValue ''-7'' = Some (- 7) \<and>
   buildShopifyQLQuery \<lparr>opt_from = ''sales'', opt_show = [''orders''], opt_where = None,
      opt_groupBy = None, opt_period = ''today'', opt_orderBy = None,
      opt_limit = Some (OtherNumber ''1e+21'')\<rparr>
     = ''FROM sales SHOW orders SINCE today LIMIT 1e+21''"
proof -
  let ?zero = "\<lparr>opt_from = ''sales'', opt_show = [''orders''], opt_where = None,
      opt_groupBy = None, opt_period = ''today'', opt_orderBy = None,
      opt_limit = Some (SafeInteger False 0)\<rparr>"
  let ?many = "\<lparr>opt_from = ''sales'', opt_show = [''orders''], opt_where = None,
      opt_groupBy = None, opt_period = ''today'', opt_orderBy = None,
      opt_limit = Some (SafeInteger False 120)\<rparr>"
  let ?minus = "\<lparr>opt_from = ''sales'', opt_show = [''orders''], opt_where = None,
      opt_groupBy = None, opt_period = ''today'', opt_orderBy = None,
      opt_limit = Some (SafeInteger True 7)\<rparr>"
  let ?large = "\<lparr>opt_from = ''sales'', opt_show = [''orders''], opt_where = None,
      opt_groupBy = None, opt_period = ''today'', opt_orderBy = None,
      opt_limit = Some (OtherNumber ''1e+21'')\<rparr>"
  have q: "queryBeforeLimit ?zero = ''FROM sales SHOW orders SINCE today''"
    "queryBeforeLimit ?many = ''FROM sales SHOW orders SINCE today''"
    "queryBeforeLimit ?minus = ''FROM sales SHOW orders SINCE today''"
    "queryBeforeLimit ?large = ''FROM sales SHOW orders SINCE today''"
    by (simp_all add: queryBeforeLimit_def whereClause_def periodClause_def groupByClause_def
        orderByClause_def periodToShopifyQL_def js_or_def getProperty_def periodMap_def)
  have n: "numberToString (SafeInteger False 120) = ''120''"
    "numberToString (SafeInteger True 7) = ''-7''"
    by (simp_all add: digits.simps digitChar_def)
  have hzero: "opt_limit ?zero = None \<or> opt_limit ?zero = Some NaN \<or>
      (\<exists>n. opt_limit ?zero = Some n \<and> equalsZero n)"
    by simp
  have hmany: "opt_limit ?many = Some (SafeInteger False 120) \<and> (120 :: 53 word) \<noteq> 0"
    by simp
  have hminus: "opt_limit ?minus = Some (SafeInteger True 7) \<and> (7 :: 53 word) \<noteq> 0"
    by simp
  have hlarge: "opt_limit ?large = Some (OtherNumber ''1e+21'')"
    by simp
  note limit = buildShopifyQLQuery_limit
  from limit [of ?zero, THEN conjunct1, THEN mp, OF hzero]
  have zero: "buildShopifyQLQuery ?zero = ''FROM sales SHOW orders SINCE today''"
    by (simp only: q)
  from limit [of ?many, THEN conjunct2, THEN conjunct1, THEN spec, THEN spec, THEN mp, OF hmany]
  have many: "buildShopifyQLQuery ?many = ''FROM sales SHOW orders SINCE today LIMIT 120''"
    "decimalValue ''120'' = Some 120"
    by (simp_all add: q n del: numberToString.simps)
  from limit [of ?minus, THEN conjunct2, THEN conjunct1, THEN spec, THEN spec, THEN mp,
      OF hminus]
  have minus: "buildShopifyQLQuery ?minus = ''FROM sales SHOW orders SINCE today LIMIT -7''"
    "decimalValue ''-7'' = Some (- 7)"
    by (simp_all add: q n del: numberToString.simps)
  from limit [of ?large, THEN conjunct2, THEN conjunct2, THEN spec, THEN mp, OF hlarge]
  have large: "buildShopifyQLQuery ?large = ''FROM sales SHOW orders SINCE today LIMIT 1e+21''"
    by (simp add: q)
  from zero many minus large show ?thesis by (intro conjI)
qed


section \<open>Properties of the tools\<close>

lemma foldl_plus_sum_list:
  "foldl (\<lambda>sum l. sum + f l) a ls = a + sum_list (map f ls)" for a :: int
  by (induction ls arbitrary: a) simp_all

lemma foldl_update_other:
  "name \<notin> q_name ` set qs \<Longrightarrow>
   foldl (\<lambda>m q. m(q_name q \<mapsto> q_quantity q)) m0 qs name = m0 name"
  by (induction qs arbitrary: m0) simp_all

lemma quantityOrZero_missing:
  "name \<notin> q_name ` set qs \<Longrightarrow> quantityOrZero (quantityMap qs) name = 0"
  by (simp add: quantityOrZero_def quantityMap_def foldl_update_other)

lemma formatItem_levels:
  "inventoryLevels (formatItem itemEdge)
   = map formatLevel (edges (in_inventoryLevels (node itemEdge)))"
  by (simp add: formatItem_def Let_def)

lemma formatItem_totals:
  "totalAvailable (formatItem itemEdge)
     = sum_list (map available (inventoryLevels (formatItem itemEdge)))"
  "totalOnHand (formatItem itemEdge)
     = sum_list (map onHand (inventoryLevels (formatItem itemEdge)))"
  by (simp_all add: formatItem_def Let_def foldl_plus_sum_list)

lemma formatLevel_missing:
  "''available'' \<notin> q_name ` set (ln_quantities (node levelEdge)) \<Longrightarrow>
     available (formatLevel levelEdge) = 0"
  "''incoming'' \<notin> q_name ` set (ln_quantities (node levelEdge)) \<Longrightarrow>
     incoming (formatLevel levelEdge) = 0"
  "''committed'' \<notin> q_name ` set (ln_quantities (node levelEdge)) \<Longrightarrow>
     committed (formatLevel levelEdge) = 0"
  "''reserved'' \<notin> q_name ` set (ln_quantities (node levelEdge)) \<Longrightarrow>
     reserved (formatLevel levelEdge) = 0"
  "''on_hand'' \<notin> q_name ` set (ln_quantities (node levelEdge)) \<Longrightarrow>
     onHand (formatLevel levelEdge) = 0"
  by (simp_all add: formatLevel_def Let_def quantityOrZero_missing)

lemma getInventoryLevels_execute_success:
  "request (inventoryVariables input) = Inr data \<Longrightarrow>
   getInventoryLevels_execute input request
   = Inr \<lparr>inventoryItems = map formatItem (edges (d_inventoryItems data)),
          itemCount = int (length (edges (d_inventoryItems data)))\<rparr>"
  by (simp add: getInventoryLevels_execute_def getInventoryLevels_try_def Let_def)

text \<open>
  C4: when the response of the remote service carries a non-empty \<open>parseErrors\<close> array,
  each of the four analytics tools raises an error whose message contains the parse
  errors joined with \<open>; \<close>, whatever table data came along; no result is returned.
\<close>

theorem parse_errors_raise:
  "(runRequest \<lparr>qv_query = rq_query runInput\<rparr> = Inr runData \<and>
    sq_parseErrors (d_shopifyqlQuery runData) = Some runErrors \<and> runErrors \<noteq> [] \<longrightarrow>
      runShopifyqlQuery_execute runInput runRequest
      = Inl (''Failed to execute ShopifyQL query: '' @ ''ShopifyQL parse errors: ''
             @ joinedWith ''; '' runErrors)) \<and>
   (salesRequest \<lparr>qv_query = salesReportQuery salesInput\<rparr> = Inr salesData \<and>
    sq_parseErrors (d_shopifyqlQuery salesData) = Some salesErrors \<and> salesErrors \<noteq> [] \<longrightarrow>
      getSalesReport_execute salesInput salesRequest
      = Inl (''Failed to fetch sales report: '' @ ''ShopifyQL parse errors: ''
             @ joinedWith ''; '' salesErrors)) \<and>
   (productRequest \<lparr>qv_query = productPerformanceQuery productInput\<rparr> = Inr productData \<and>
    sq_parseErrors (d_shopifyqlQuery productData) = Some productErrors \<and> productErrors \<noteq> [] \<longrightarrow>
      getProductPerformance_execute productInput productRequest
      = Inl (''Failed to fetch product performance: '' @ ''ShopifyQL parse errors: ''
             @ joinedWith ''; '' productErrors)) \<and>
   (customerRequest \<lparr>qv_query = customerAnalyticsQuery customerInput\<rparr> = Inr customerData \<and>
    sq_parseErrors (d_shopifyqlQuery customerData) = Some customerErrors \<and>
    customerErrors \<noteq> [] \<longrightarrow>
      getCustomerAnalytics_execute customerInput customerRequest
      = Inl (''Failed to fetch customer analytics: '' @ ''ShopifyQL parse errors: ''
             @ joinedWith ''; '' customerErrors))"
proof -
  have message: "hasParseErrors data \<and>
      parseErrorsMessage data = ''ShopifyQL parse errors: '' @ joinedWith ''; '' errors"
    if "sq_parseErrors (d_shopifyqlQuery data) = Some errors" "errors \<noteq> []" for data errors
    using that by (simp add: hasParseErrors_def parseErrorsMessage_def joinJS_strings)
  have run: "runShopifyqlQuery_execute runInput runRequest
      = Inl (''Failed to execute ShopifyQL query: '' @ ''ShopifyQL parse errors: ''
             @ joinedWith ''; '' runErrors)"
    if "runRequest \<lparr>qv_query = rq_query runInput\<rparr> = Inr runData"
      "sq_parseErrors (d_shopifyqlQuery runData) = Some runErrors" "runErrors \<noteq> []"
    using that(1) message [OF that(2,3)]
    by (simp add: runShopifyqlQuery_execute_def runShopifyqlQuery_try_def Let_def)
  have sales: "getSalesReport_execute salesInput salesRequest
      = Inl (''Failed to fetch sales report: '' @ ''ShopifyQL parse errors: ''
             @ joinedWith ''; '' salesErrors)"
    if "salesRequest \<lparr>qv_query = salesReportQuery salesInput\<rparr> = Inr salesData"
      "sq_parseErrors (d_shopifyqlQuery salesData) = Some salesErrors" "salesErrors \<noteq> []"
    using that(1) message [OF that(2,3)]
    by (simp add: getSalesReport_execute_def getSalesReport_try_def Let_def)
  have product: "getProductPerformance_execute productInput productRequest
      = Inl (''Failed to fetch product performance: '' @ ''ShopifyQL parse errors: ''
             @ joinedWith ''; '' productErrors)"
    if "productRequest \<lparr>qv_query = productPerformanceQuery productInput\<rparr> = Inr productData"
      "sq_parseErrors (d_shopifyqlQuery productData) = Some productErrors" "productErrors \<noteq> []"
    using that(1) message [OF that(2,3)]
    by (simp add: getProductPerformance_execute_def getProductPerformance_try_def Let_def)
  have customer: "getCustomerAnalytics_execute customerInput customerRequest
      = Inl (''Failed to fetch customer analytics: '' @ ''ShopifyQL parse errors: ''
             @ joinedWith ''; '' customerErrors)"
    if "customerRequest \<lparr>qv_query = customerAnalyticsQuery customerInput\<rparr> = Inr customerData"
      "sq_parseErrors (d_shopifyqlQuery customerData) = Some customerErrors"
      "customerErrors \<noteq> []"
    using that(1) message [OF that(2,3)]
    by (simp add: getCustomerAnalytics_execute_def getCustomerAnalytics_try_def Let_def)
  from run sales product customer show ?thesis by blast
qed

theorem parse_errors_raise_witness:
  "runShopifyqlQuery_execute \<lparr>rq_query = ''FROM sales SHOW nothing''\<rparr>
     (respondWith \<lparr>d_shopifyqlQuery =
        \<lparr>sq_tableData = Some \<lparr>td_columns = [], td_rows = [[''1'']]\<rparr>,
         sq_parseErrors = Some [''unknown column'', ''unexpected end'']\<rparr>\<rparr>)
   = Inl ''Failed to execute ShopifyQL query: ShopifyQL parse errors: unknown column; unexpected end'' \<and>
   getSalesReport_execute
     \<lparr>sr_period = ''today'', sr_groupBy = ''day'', sr_metrics = [''orders''], sr_limit = SafeInteger False 10\<rparr>
     (respondWith \<lparr>d_shopifyqlQuery =
        \<lparr>sq_tableData = Some \<lparr>td_columns = [], td_rows = [[''1'']]\<rparr>,
         sq_parseErrors = Some [''unknown column'', ''unexpected end'']\<rparr>\<rparr>)
   = Inl ''Failed to fetch sales report: ShopifyQL parse errors: unknown column; unexpected end'' \<and>
   getProductPerformance_execute
     \<lparr>pp_period = ''today'', pp_sortBy = ''orders'', pp_limit = SafeInteger False 10, pp_productType = None\<rparr>
     (respondWith \<lparr>d_shopifyqlQuery =
        \<lparr>sq_tableData = Some \<lparr>td_columns = [], td_rows = [[''1'']]\<rparr>,
         sq_parseErrors = Some [''unknown column'', ''unexpected end'']\<rparr>\<rparr>)
   = Inl ''Failed to fetch product performance: ShopifyQL parse errors: unknown column; unexpected end'' \<and>
   getCustomerAnalytics_execute
     \<lparr>ca_period = ''today'', ca_reportType = ''overview'', ca_groupBy = ''day''\<rparr>
     (respondWith \<lparr>d_shopifyqlQuery =
        \<lparr>sq_tableData = Some \<lparr>td_columns = [], td_rows = [[''1'']]\<rparr>,
         sq_parseErrors = Some [''unknown column'', ''unexpected end'']\<rparr>\<rparr>)
   = Inl ''Failed to fetch customer analytics: ShopifyQL parse errors: unknown column; unexpected end''"
proof -
  let ?data = "\<lparr>d_shopifyqlQuery =
        \<lparr>sq_tableData = Some \<lparr>td_columns = [], td_rows = [[''1'']]\<rparr>,
         sq_parseErrors = Some [''unknown column'', ''unexpected end'']\<rparr>\<rparr>"
  let ?errors = "[''unknown column'', ''unexpected end'']"
  have answered: "respondWith ?data v = Inr ?data" for v :: query_variables
    by (simp add: respondWith_def)
  have errors: "sq_parseErrors (d_shopifyqlQuery ?data) = Some ?errors \<and> ?errors \<noteq> []"
    by simp
  have joined: "joinedWith ''; '' ?errors = ''unknown column; unexpected end''"
    by simp
  from parse_errors_raise
    [of "respondWith ?data" "\<lparr>rq_query = ''FROM sales SHOW nothing''\<rparr>" ?data ?errors
        "respondWith ?data"
        "\<lparr>sr_period = ''today'', sr_groupBy = ''day'', sr_metrics = [''orders''], sr_limit = SafeInteger False 10\<rparr>"
        ?data ?errors
        "respondWith ?data"
        "\<lparr>pp_period = ''today'', pp_sortBy = ''orders'', pp_limit = SafeInteger False 10, pp_productType = None\<rparr>"
        ?data ?errors
        "respondWith ?data"
        "\<lparr>ca_period = ''today'', ca_reportType = ''overview'', ca_groupBy = ''day''\<rparr>"
        ?data ?errors]
  show ?thesis
    unfolding answered joined using errors by simp
qed

text \<open>
  C5 as stated fails: the prefix of run-shopifyql-query is not of the form
  \<open>Failed to fetch X: \<close>.
\<close>

theorem runShopifyqlQuery_failure_prefix:
  "runShopifyqlQuery_execute \<lparr>rq_query = ''FROM sales SHOW orders''\<rparr>
     (failWith (ErrorObject ''socket hang up''))
   = Inl ''Failed to execute ShopifyQL query: socket hang up'' \<and>
   take 16 ''Failed to execute ShopifyQL query: socket hang up'' \<noteq> ''Failed to fetch ''"
  by (simp add: runShopifyqlQuery_execute_def runShopifyqlQuery_try_def failWith_def)

text \<open>
  C5, amended: for each of the eight tools, a failure of the remote request is re-raised
  as one error whose message is the tool's own prefix followed by the message of the
  cause, and no result is returned; whatever \<open>execute\<close> raises starts with that prefix. The
  prefix is \<open>Failed to fetch X: \<close> for six of the tools, \<open>Failed to execute ShopifyQL query: \<close>
  for run-shopifyql-query and \<open>Failed to search orders: \<close> for search-orders.
\<close>

theorem failures_are_wrapped:
  "(inventoryRequest (inventoryVariables inventoryInput) = Inl inventoryError \<longrightarrow>
      getInventoryLevels_execute inventoryInput inventoryRequest
      = Inl (''Failed to fetch inventory levels: '' @ errorMessage inventoryError)) \<and>
   (salesRequest \<lparr>qv_query = salesReportQuery salesInput\<rparr> = Inl salesError \<longrightarrow>
      getSalesReport_execute salesInput salesRequest
      = Inl (''Failed to fetch sales report: '' @ errorMessage salesError)) \<and>
   (runRequest \<lparr>qv_query = rq_query runInput\<rparr> = Inl runError \<longrightarrow>
      runShopifyqlQuery_execute runInput runRequest
      = Inl (''Failed to execute ShopifyQL query: '' @ errorMessage runError)) \<and>
   (productRequest \<lparr>qv_query = productPerformanceQuery productInput\<rparr> = Inl productError \<longrightarrow>
      getProductPerformance_execute productInput productRequest
      = Inl (''Failed to fetch product performance: '' @ errorMessage productError)) \<and>
   (customerRequest \<lparr>qv_query = customerAnalyticsQuery customerInput\<rparr> = Inl customerError \<longrightarrow>
      getCustomerAnalytics_execute customerInput customerRequest
      = Inl (''Failed to fetch customer analytics: '' @ errorMessage customerError)) \<and>
   (locationsRequest \<lparr>lv_first = gl_limit locationsInput,
                       lv_includeInactive = gl_includeInactive locationsInput\<rparr>
      = Inl locationsError \<longrightarrow>
      getLocations_execute locationsInput locationsRequest
      = Inl (''Failed to fetch locations: '' @ errorMessage locationsError)) \<and>
   (ordersRequest \<lparr>ov_first = so_limit ordersInput, ov_query = so_query ordersInput,
                    ov_sortKey = so_sortKey ordersInput, ov_reverse = so_reverse ordersInput\<rparr>
      = Inl ordersError \<longrightarrow>
      searchOrders_execute ordersInput ordersRequest
      = Inl (''Failed to search orders: '' @ errorMessage ordersError)) \<and>
   (collectionsRequest \<lparr>cv_first = gc_limit collectionsInput,
                         cv_query = collectionsQueryFilter collectionsInput\<rparr>
      = Inl collectionsError \<longrightarrow>
      getCollections_execute collectionsInput collectionsRequest
      = Inl (''Failed to fetch collections: '' @ errorMessage collectionsError)) \<and>
   ((\<exists>result. getInventoryLevels_execute inventoryInput inventoryRequest = Inr result) \<or>
    (\<exists>cause. getInventoryLevels_execute inventoryInput inventoryRequest
       = Inl (''Failed to fetch inventory levels: '' @ cause))) \<and>
   ((\<exists>result. getSalesReport_execute salesInput salesRequest = Inr result) \<or>
    (\<exists>cause. getSalesReport_execute salesInput salesRequest
       = Inl (''Failed to fetch sales report: '' @ cause))) \<and>
   ((\<exists>result. runShopifyqlQuery_execute runInput runRequest = Inr result) \<or>
    (\<exists>cause. runShopifyqlQuery_execute runInput runRequest
       = Inl (''Failed to execute ShopifyQL query: '' @ cause))) \<and>
   ((\<exists>result. getProductPerformance_execute productInput productRequest = Inr result) \<or>
    (\<exists>cause. getProductPerformance_execute productInput productRequest
       = Inl (''Failed to fetch product performance: '' @ cause))) \<and>
   ((\<exists>result. getCustomerAnalytics_execute customerInput customerRequest = Inr result) \<or>
    (\<exists>cause. getCustomerAnalytics_execute customerInput customerRequest
       = Inl (''Failed to fetch customer analytics: '' @ cause))) \<and>
   ((\<exists>result. getLocations_execute locationsInput locationsRequest = Inr result) \<or>
    (\<exists>cause. getLocations_execute locationsInput locationsRequest
       = Inl (''Failed to fetch locations: '' @ cause))) \<and>
   ((\<exists>result. searchOrders_execute ordersInput ordersRequest = Inr result) \<or>
    (\<exists>cause. searchOrders_execute ordersInput ordersRequest
       = Inl (''Failed to search orders: '' @ cause))) \<and>
   ((\<exists>result. getCollections_execute collectionsInput collectionsRequest = Inr result) \<or>
    (\<exists>cause. getCollections_execute collectionsInput collectionsRequest
       = Inl (''Failed to fetch collections: '' @ cause)))"
proof -
  have thrown:
    "inventoryRequest (inventoryVariables inventoryInput) = Inl inventoryError \<longrightarrow>
      getInventoryLevels_execute inventoryInput inventoryRequest
      = Inl (''Failed to fetch inventory levels: '' @ errorMessage inventoryError)"
    "salesRequest \<lparr>qv_query = salesReportQuery salesInput\<rparr> = Inl salesError \<longrightarrow>
      getSalesReport_execute salesInput salesRequest
      = Inl (''Failed to fetch sales report: '' @ errorMessage salesError)"
    "runRequest \<lparr>qv_query = rq_query runInput\<rparr> = Inl runError \<longrightarrow>
      runShopifyqlQuery_execute runInput runRequest
      = Inl (''Failed to execute ShopifyQL query: '' @ errorMessage runError)"
    "productRequest \<lparr>qv_query = productPerformanceQuery productInput\<rparr> = Inl productError \<longrightarrow>
      getProductPerformance_execute productInput productRequest
      = Inl (''Failed to fetch product performance: '' @ errorMessage productError)"
    "customerRequest \<lparr>qv_query = customerAnalyticsQuery customerInput\<rparr> = Inl customerError \<longrightarrow>
      getCustomerAnalytics_execute customerInput customerRequest
      = Inl (''Failed to fetch customer analytics: '' @ errorMessage customerError)"
    "locationsRequest \<lparr>lv_first = gl_limit locationsInput,
                       lv_includeInactive = gl_includeInactive locationsInput\<rparr>
      = Inl locationsError \<longrightarrow>
      getLocations_execute locationsInput locationsRequest
      = Inl (''Failed to fetch locations: '' @ errorMessage locationsError)"
    "ordersRequest \<lparr>ov_first = so_limit ordersInput, ov_query = so_query ordersInput,
                    ov_sortKey = so_sortKey ordersInput, ov_reverse = so_reverse ordersInput\<rparr>
      = Inl ordersError \<longrightarrow>
      searchOrders_execute ordersInput ordersRequest
      = Inl (''Failed to search orders: '' @ errorMessage ordersError)"
    "collectionsRequest \<lparr>cv_first = gc_limit collectionsInput,
                         cv_query = collectionsQueryFilter collectionsInput\<rparr>
      = Inl collectionsError \<longrightarrow>
      getCollections_execute collectionsInput collectionsRequest
      = Inl (''Failed to fetch collections: '' @ errorMessage collectionsError)"
    by (simp_all add: getInventoryLevels_execute_def getInventoryLevels_try_def
        getSalesReport_execute_def getSalesReport_try_def
        runShopifyqlQuery_execute_def runShopifyqlQuery_try_def
        getProductPerformance_execute_def getProductPerformance_try_def
        getCustomerAnalytics_execute_def getCustomerAnalytics_try_def
        getLocations_execute_def getLocations_try_def
        searchOrders_execute_def searchOrders_try_def
        getCollections_execute_def getCollections_try_def Let_def)
  have outcome:
    "(\<exists>result. getInventoryLevels_execute inventoryInput inventoryRequest = Inr result) \<or>
     (\<exists>cause. getInventoryLevels_execute inventoryInput inventoryRequest
        = Inl (''Failed to fetch inventory levels: '' @ cause))"
    "(\<exists>result. getSalesReport_execute salesInput salesRequest = Inr result) \<or>
     (\<exists>cause. getSalesReport_execute salesInput salesRequest
        = Inl (''Failed to fetch sales report: '' @ cause))"
    "(\<exists>result. runShopifyqlQuery_execute runInput runRequest = Inr result) \<or>
     (\<exists>cause. runShopifyqlQuery_execute runInput runRequest
        = Inl (''Failed to execute ShopifyQL query: '' @ cause))"
    "(\<exists>result. getProductPerformance_execute productInput productRequest = Inr result) \<or>
     (\<exists>cause. getProductPerformance_execute productInput productRequest
        = Inl (''Failed to fetch product performance: '' @ cause))"
    "(\<exists>result. getCustomerAnalytics_execute customerInput customerRequest = Inr result) \<or>
     (\<exists>cause. getCustomerAnalytics_execute customerInput customerRequest
        = Inl (''Failed to fetch customer analytics: '' @ cause))"
    "(\<exists>result. getLocations_execute locationsInput locationsRequest = Inr result) \<or>
     (\<exists>cause. getLocations_execute locationsInput locationsRequest
        = Inl (''Failed to fetch locations: '' @ cause))"
    "(\<exists>result. searchOrders_execute ordersInput ordersRequest = Inr result) \<or>
     (\<exists>cause. searchOrders_execute ordersInput ordersRequest
        = Inl (''Failed to search orders: '' @ cause))"
    "(\<exists>result. getCollections_execute collectionsInput collectionsRequest = Inr result) \<or>
     (\<exists>cause. getCollections_execute collectionsInput collectionsRequest
        = Inl (''Failed to fetch collections: '' @ cause))"
    by (simp_all add: getInventoryLevels_execute_def getSalesReport_execute_def
        runShopifyqlQuery_execute_def getProductPerformance_execute_def
        getCustomerAnalytics_execute_def getLocations_execute_def searchOrders_execute_def
        getCollections_execute_def split: sum.splits)
  from thrown outcome show ?thesis by (intro conjI)
qed

theorem failures_are_wrapped_witness:
  "getInventoryLevels_execute \<lparr>il_limit = 20, il_sku = None, il_productId = None\<rparr>
     (failWith (ErrorObject ''socket hang up''))
   = Inl ''Failed to fetch inventory levels: socket hang up'' \<and>
   getSalesReport_execute
     \<lparr>sr_period = ''today'', sr_groupBy = ''day'', sr_metrics = [''orders''], sr_limit = SafeInteger False 10\<rparr>
     (failWith (ErrorObject ''socket hang up''))
   = Inl ''Failed to fetch sales report: socket hang up'' \<and>
   runShopifyqlQuery_execute \<lparr>rq_query = ''FROM sales SHOW orders''\<rparr>
     (failWith (NonError ''timeout''))
   = Inl ''Failed to execute ShopifyQL query: timeout'' \<and>
   getProductPerformance_execute
     \<lparr>pp_period = ''today'', pp_sortBy = ''orders'', pp_limit = SafeInteger False 10, pp_productType = None\<rparr>
     (failWith (ErrorObject ''socket hang up''))
   = Inl ''Failed to fetch product performance: socket hang up'' \<and>
   getCustomerAnalytics_execute
     \<lparr>ca_period = ''today'', ca_reportType = ''overview'', ca_groupBy = ''day''\<rparr>
     (failWith (ErrorObject ''socket hang up''))
   = Inl ''Failed to fetch customer analytics: socket hang up'' \<and>
   getLocations_execute \<lparr>gl_limit = 20, gl_includeInactive = False\<rparr>
     (failWith (ErrorObject ''socket hang up''))
   = Inl ''Failed to fetch locations: socket hang up'' \<and>
   searchOrders_execute
     \<lparr>so_query = ''tag:vip'', so_limit = 20, so_sortKey = ''CREATED_AT'', so_reverse = True\<rparr>
     (failWith (ErrorObject ''socket hang up''))
   = Inl ''Failed to search orders: socket hang up'' \<and>
   getCollections_execute
     \<lparr>gc_limit = 20, gc_searchQuery = None, gc_collectionType = ''all''\<rparr>
     (failWith (ErrorObject ''socket hang up''))
   = Inl ''Failed to fetch collections: socket hang up''"
proof -
  have failing: "failWith e v = Inl e" for e and v :: 'v
    by (simp add: failWith_def)
  from failures_are_wrapped
    [where inventoryRequest = "failWith (ErrorObject ''socket hang up'')"
       and inventoryInput = "\<lparr>il_limit = 20, il_sku = None, il_productId = None\<rparr>"
       and inventoryError = "ErrorObject ''socket hang up''"
       and salesRequest = "failWith (ErrorObject ''socket hang up'')"
       and salesInput = "\<lparr>sr_period = ''today'', sr_groupBy = ''day'',
             sr_metrics = [''orders''], sr_limit = SafeInteger False 10\<rparr>"
       and salesError = "ErrorObject ''socket hang up''"
       and runRequest = "failWith (NonError ''timeout'')"
       and runInput = "\<lparr>rq_query = ''FROM sales SHOW orders''\<rparr>"
       and runError = "NonError ''timeout''"
       and productRequest = "failWith (ErrorObject ''socket hang up'')"
       and productInput = "\<lparr>pp_period = ''today'', pp_sortBy = ''orders'', pp_limit = SafeInteger False 10,
             pp_productType = None\<rparr>"
       and productError = "ErrorObject ''socket hang up''"
       and customerRequest = "failWith (ErrorObject ''socket hang up'')"
       and customerInput = "\<lparr>ca_period = ''today'', ca_reportType = ''overview'',
             ca_groupBy = ''day''\<rparr>"
       and customerError = "ErrorObject ''socket hang up''"
       and locationsRequest = "failWith (ErrorObject ''socket hang up'')"
       and locationsInput = "\<lparr>gl_limit = 20, gl_includeInactive = False\<rparr>"
       and locationsError = "ErrorObject ''socket hang up''"
       and ordersRequest = "failWith (ErrorObject ''socket hang up'')"
       and ordersInput = "\<lparr>so_query = ''tag:vip'', so_limit = 20, so_sortKey = ''CREATED_AT'',
             so_reverse = True\<rparr>"
       and ordersError = "ErrorObject ''socket hang up''"
       and collectionsRequest = "failWith (ErrorObject ''socket hang up'')"
       and collectionsInput = "\<lparr>gc_limit = 20, gc_searchQuery = None,
             gc_collectionType = ''all''\<rparr>"
       and collectionsError = "ErrorObject ''socket hang up''"]
  show ?thesis
    unfolding failing by simp
qed

text \<open>
  C6 as stated fails: an empty \<open>sku\<close> supplied together with a \<open>productId\<close> is falsy,
  so the filter is built from the product id.
\<close>

theorem empty_sku_yields_product_filter:
  "iv_query (inventoryVariables
     \<lparr>il_limit = 20, il_sku = Some [], il_productId = Some ''gid://shopify/Product/42''\<rparr>)
   = Some ''product_id:42''"
  by (simp add: inventoryVariables_def inventoryQueryFilter_def popText_def Let_def)

text \<open>
  C6, amended: whenever a non-empty \<open>sku\<close> and a \<open>productId\<close> are both supplied, the
  \<open>query\<close> variable of the remote request is exactly \<open>sku:\<close> followed by the sku,
  with no term for the product id; the request is issued with these variables, as the result depends on
  the client only through its answer to them.
\<close>

theorem sku_filter_wins:
  "(il_sku input = Some sku \<and> sku \<noteq> [] \<and> il_productId input = Some productId \<longrightarrow>
      iv_query (inventoryVariables input) = Some (''sku:'' @ sku)) \<and>
   (request (inventoryVariables input) = request' (inventoryVariables input) \<longrightarrow>
      getInventoryLevels_execute input request = getInventoryLevels_execute input request')"
  by (simp add: inventoryVariables_def inventoryQueryFilter_def getInventoryLevels_execute_def
      getInventoryLevels_try_def Let_def)

theorem sku_filter_wins_witness:
  "il_sku \<lparr>il_limit = 20, il_sku = Some ''ABC-1'', il_productId = Some ''42''\<rparr> = Some ''ABC-1'' \<and>
   ''ABC-1'' \<noteq> [] \<and>
   il_productId \<lparr>il_limit = 20, il_sku = Some ''ABC-1'', il_productId = Some ''42''\<rparr> = Some ''42'' \<and>
   iv_query (inventoryVariables \<lparr>il_limit = 20, il_sku = Some ''ABC-1'', il_productId = Some ''42''\<rparr>)
     = Some ''sku:ABC-1''"
proof -
  let ?input = "\<lparr>il_limit = 20, il_sku = Some ''ABC-1'', il_productId = Some ''42''\<rparr>"
  have h: "il_sku ?input = Some ''ABC-1'' \<and> ''ABC-1'' \<noteq> [] \<and> il_productId ?input = Some ''42''"
    by simp
  from sku_filter_wins [of ?input "''ABC-1''" "''42''"] h
  have "iv_query (inventoryVariables ?input) = Some (''sku:'' @ ''ABC-1'')"
    by blast
  with h show ?thesis by simp
qed

text \<open>
  C7: when the request succeeds the result holds one mapped item per item of the
  response and one mapped level per level of the item. A level whose quantities lack the
  entry named \<open>reserved\<close> reports \<open>reserved = 0\<close>, and likewise each other missing named
  quantity is 0; for every mapped item \<open>totalAvailable\<close> is the sum of \<open>available\<close> and
  \<open>totalOnHand\<close> the sum of \<open>onHand\<close> over its mapped levels.
\<close>

theorem inventory_totals:
  "request (inventoryVariables input) = Inr data \<longrightarrow>
     (\<exists>result. getInventoryLevels_execute input request = Inr result \<and>
        inventoryItems result = map formatItem (edges (d_inventoryItems data)) \<and>
        (\<forall>item \<in> set (inventoryItems result).
           totalAvailable item = sum_list (map available (inventoryLevels item)) \<and>
           totalOnHand item = sum_list (map onHand (inventoryLevels item)))) \<and>
     (\<forall>itemEdge \<in> set (edges (d_inventoryItems data)).
        inventoryLevels (formatItem itemEdge)
          = map formatLevel (edges (in_inventoryLevels (node itemEdge))) \<and>
        (\<forall>levelEdge \<in> set (edges (in_inventoryLevels (node itemEdge))).
           (''reserved'' \<notin> q_name ` set (ln_quantities (node levelEdge)) \<longrightarrow>
              reserved (formatLevel levelEdge) = 0) \<and>
           (''available'' \<notin> q_name ` set (ln_quantities (node levelEdge)) \<longrightarrow>
              available (formatLevel levelEdge) = 0) \<and>
           (''incoming'' \<notin> q_name ` set (ln_quantities (node levelEdge)) \<longrightarrow>
              incoming (formatLevel levelEdge) = 0) \<and>
           (''committed'' \<notin> q_name ` set (ln_quantities (node levelEdge)) \<longrightarrow>
              committed (formatLevel levelEdge) = 0) \<and>
           (''on_hand'' \<notin> q_name ` set (ln_quantities (node levelEdge)) \<longrightarrow>
              onHand (formatLevel levelEdge) = 0)))"
proof
  assume ok: "request (inventoryVariables input) = Inr data"
  let ?result = "\<lparr>inventoryItems = map formatItem (edges (d_inventoryItems data)),
                   itemCount = int (length (edges (d_inventoryItems data)))\<rparr>"
  have "getInventoryLevels_execute input request = Inr ?result"
    using ok by (rule getInventoryLevels_execute_success)
  moreover have "inventoryItems ?result = map formatItem (edges (d_inventoryItems data))"
    by simp
  moreover have "\<forall>item \<in> set (inventoryItems ?result).
      totalAvailable item = sum_list (map available (inventoryLevels item)) \<and>
      totalOnHand item = sum_list (map onHand (inventoryLevels item))"
    using formatItem_totals by auto
  ultimately have first: "\<exists>result. getInventoryLevels_execute input request = Inr result \<and>
      inventoryItems result = map formatItem (edges (d_inventoryItems data)) \<and>
      (\<forall>item \<in> set (inventoryItems result).
         totalAvailable item = sum_list (map available (inventoryLevels item)) \<and>
         totalOnHand item = sum_list (map onHand (inventoryLevels item)))"
    by blast
  have second: "\<forall>itemEdge \<in> set (edges (d_inventoryItems data)).
      inventoryLevels (formatItem itemEdge)
        = map formatLevel (edges (in_inventoryLevels (node itemEdge))) \<and>
      (\<forall>levelEdge \<in> set (edges (in_inventoryLevels (node itemEdge))).
         (''reserved'' \<notin> q_name ` set (ln_quantities (node levelEdge)) \<longrightarrow>
            reserved (formatLevel levelEdge) = 0) \<and>
         (''available'' \<notin> q_name ` set (ln_quantities (node levelEdge)) \<longrightarrow>
            available (formatLevel levelEdge) = 0) \<and>
         (''incoming'' \<notin> q_name ` set (ln_quantities (node levelEdge)) \<longrightarrow>
            incoming (formatLevel levelEdge) = 0) \<and>
         (''committed'' \<notin> q_name ` set (ln_quantities (node levelEdge)) \<longrightarrow>
            committed (formatLevel levelEdge) = 0) \<and>
         (''on_hand'' \<notin> q_name ` set (ln_quantities (node levelEdge)) \<longrightarrow>
            onHand (formatLevel levelEdge) = 0))"
    by (simp add: formatItem_levels formatLevel_missing)
  from first second show
    "(\<exists>result. getInventoryLevels_execute input request = Inr result \<and>
        inventoryItems result = map formatItem (edges (d_inventoryItems data)) \<and>
        (\<forall>item \<in> set (inventoryItems result).
           totalAvailable item = sum_list (map available (inventoryLevels item)) \<and>
           totalOnHand item = sum_list (map onHand (inventoryLevels item)))) \<and>
     (\<forall>itemEdge \<in> set (edges (d_inventoryItems data)).
        inventoryLevels (formatItem itemEdge)
          = map formatLevel (edges (in_inventoryLevels (node itemEdge))) \<and>
        (\<forall>levelEdge \<in> set (edges (in_inventoryLevels (node itemEdge))).
           (''reserved'' \<notin> q_name ` set (ln_quantities (node levelEdge)) \<longrightarrow>
              reserved (formatLevel levelEdge) = 0) \<and>
           (''available'' \<notin> q_name ` set (ln_quantities (node levelEdge)) \<longrightarrow>
              available (formatLevel levelEdge) = 0) \<and>
           (''incoming'' \<notin> q_name ` set (ln_quantities (node levelEdge)) \<longrightarrow>
              incoming (formatLevel levelEdge) = 0) \<and>
           (''committed'' \<notin> q_name ` set (ln_quantities (node levelEdge)) \<longrightarrow>
              committed (formatLevel levelEdge) = 0) \<and>
           (''on_hand'' \<notin> q_name ` set (ln_quantities (node levelEdge)) \<longrightarrow>
              onHand (formatLevel levelEdge) = 0)))"
    by (rule conjI)
qed

theorem inventory_totals_witness:
  "respondWith
     \<lparr>d_inventoryItems = \<lparr>edges = [\<lparr>node =
        \<lparr>in_id = ''item-1'', in_sku = Some ''ABC-1'', in_tracked = True,
         in_inventoryLevels = \<lparr>edges =
           [\<lparr>node = \<lparr>ln_id = ''level-1'',
               ln_quantities = [\<lparr>q_name = ''available'', q_quantity = 3\<rparr>,
                                \<lparr>q_name = ''on_hand'', q_quantity = 5\<rparr>,
                                \<lparr>q_name = ''reserved'', q_quantity = 1\<rparr>],
               ln_location = \<lparr>lr_id = ''loc-1'', lr_name = ''Warehouse''\<rparr>\<rparr>\<rparr>,
            \<lparr>node = \<lparr>ln_id = ''level-2'',
               ln_quantities = [\<lparr>q_name = ''available'', q_quantity = 4\<rparr>,
                                \<lparr>q_name = ''on_hand'', q_quantity = 6\<rparr>],
               ln_location = \<lparr>lr_id = ''loc-2'', lr_name = ''Shop''\<rparr>\<rparr>\<rparr>]\<rparr>,
         in_variant = None\<rparr>\<rparr>]\<rparr>\<rparr>
     (inventoryVariables \<lparr>il_limit = 20, il_sku = None, il_productId = None\<rparr>)
   = Inr \<lparr>d_inventoryItems = \<lparr>edges = [\<lparr>node =
        \<lparr>in_id = ''item-1'', in_sku = Some ''ABC-1'', in_tracked = True,
         in_inventoryLevels = \<lparr>edges =
           [\<lparr>node = \<lparr>ln_id = ''level-1'',
               ln_quantities = [\<lparr>q_name = ''available'', q_quantity = 3\<rparr>,
                                \<lparr>q_name = ''on_hand'', q_quantity = 5\<rparr>,
                                \<lparr>q_name = ''reserved'', q_quantity = 1\<rparr>],
               ln_location = \<lparr>lr_id = ''loc-1'', lr_name = ''Warehouse''\<rparr>\<rparr>\<rparr>,
            \<lparr>node = \<lparr>ln_id = ''level-2'',
               ln_quantities = [\<lparr>q_name = ''available'', q_quantity = 4\<rparr>,
                                \<lparr>q_name = ''on_hand'', q_quantity = 6\<rparr>],
               ln_location = \<lparr>lr_id = ''loc-2'', lr_name = ''Shop''\<rparr>\<rparr>\<rparr>]\<rparr>,
         in_variant = None\<rparr>\<rparr>]\<rparr>\<rparr> \<and>
   (\<exists>result.
      getInventoryLevels_execute \<lparr>il_limit = 20, il_sku = None, il_productId = None\<rparr>
        (respondWith
           \<lparr>d_inventoryItems = \<lparr>edges = [\<lparr>node =
              \<lparr>in_id = ''item-1'', in_sku = Some ''ABC-1'', in_tracked = True,
               in_inventoryLevels = \<lparr>edges =
                 [\<lparr>node = \<lparr>ln_id = ''level-1'',
                     ln_quantities = [\<lparr>q_name = ''available'', q_quantity = 3\<rparr>,
                                      \<lparr>q_name = ''on_hand'', q_quantity = 5\<rparr>,
                                      \<lparr>q_name = ''reserved'', q_quantity = 1\<rparr>],
                     ln_location = \<lparr>lr_id = ''loc-1'', lr_name = ''Warehouse''\<rparr>\<rparr>\<rparr>,
                  \<lparr>node = \<lparr>ln_id = ''level-2'',
                     ln_quantities = [\<lparr>q_name = ''available'', q_quantity = 4\<rparr>,
                                      \<lparr>q_name = ''on_hand'', q_quantity = 6\<rparr>],
                     ln_location = \<lparr>lr_id = ''loc-2'', lr_name = ''Shop''\<rparr>\<rparr>\<rparr>]\<rparr>,
               in_variant = None\<rparr>\<rparr>]\<rparr>\<rparr>)
      = Inr result \<and>
      map totalAvailable (inventoryItems result) = [7] \<and>
      map totalOnHand (inventoryItems result) = [11] \<and>
      map (map reserved) (map inventoryLevels (inventoryItems result)) = [[1, 0]])"
proof -
  let ?input = "\<lparr>il_limit = 20, il_sku = None, il_productId = None\<rparr>"
  let ?data = "\<lparr>d_inventoryItems = \<lparr>edges = [\<lparr>node =
        \<lparr>in_id = ''item-1'', in_sku = Some ''ABC-1'', in_tracked = True,
         in_inventoryLevels = \<lparr>edges =
           [\<lparr>node = \<lparr>ln_id = ''level-1'',
               ln_quantities = [\<lparr>q_name = ''available'', q_quantity = 3\<rparr>,
                                \<lparr>q_name = ''on_hand'', q_quantity = 5\<rparr>,
                                \<lparr>q_name = ''reserved'', q_quantity = 1\<rparr>],
               ln_location = \<lparr>lr_id = ''loc-1'', lr_name = ''Warehouse''\<rparr>\<rparr>\<rparr>,
            \<lparr>node = \<lparr>ln_id = ''level-2'',
               ln_quantities = [\<lparr>q_name = ''available'', q_quantity = 4\<rparr>,
                                \<lparr>q_name = ''on_hand'', q_quantity = 6\<rparr>],
               ln_location = \<lparr>lr_id = ''loc-2'', lr_name = ''Shop''\<rparr>\<rparr>\<rparr>]\<rparr>,
         in_variant = None\<rparr>\<rparr>]\<rparr>\<rparr>"
  have answered: "respondWith ?data (inventoryVariables ?input) = Inr ?data"
    by (simp add: respondWith_def)
  note inventory_totals [of "respondWith ?data" ?input ?data, THEN mp, OF answered, THEN conjunct1]
  then obtain result where
    result: "getInventoryLevels_execute ?input (respondWith ?data) = Inr result"
    and items: "inventoryItems result = map formatItem (edges (d_inventoryItems ?data))"
    and totals: "\<forall>item \<in> set (inventoryItems result).
        totalAvailable item = sum_list (map available (inventoryLevels item)) \<and>
        totalOnHand item = sum_list (map onHand (inventoryLevels item))"
    by (elim exE conjE)
  have levels: "map inventoryLevels (inventoryItems result)
      = [[\<lparr>locationId = ''loc-1'', locationName = ''Warehouse'', available = 3, incoming = 0,
           committed = 0, reserved = 1, onHand = 5\<rparr>,
          \<lparr>locationId = ''loc-2'', locationName = ''Shop'', available = 4, incoming = 0,
           committed = 0, reserved = 0, onHand = 6\<rparr>]]"
    unfolding items
    by (simp add: formatItem_def formatLevel_def quantityMap_def quantityOrZero_def Let_def)
  from items have single: "\<exists>item. inventoryItems result = [item]"
    by simp
  then obtain item where item: "inventoryItems result = [item]" ..
  with levels have "inventoryLevels item
      = [\<lparr>locationId = ''loc-1'', locationName = ''Warehouse'', available = 3, incoming = 0,
           committed = 0, reserved = 1, onHand = 5\<rparr>,
         \<lparr>locationId = ''loc-2'', locationName = ''Shop'', available = 4, incoming = 0,
           committed = 0, reserved = 0, onHand = 6\<rparr>]"
    by simp
  with totals item have "totalAvailable item = 7" "totalOnHand item = 11"
    by simp_all
  with item levels have
    "map totalAvailable (inventoryItems result) = [7] \<and>
     map totalOnHand (inventoryItems result) = [11] \<and>
     map (map reserved) (map inventoryLevels (inventoryItems result)) = [[1, 0]]"
    by simp
  with result have "\<exists>r. getInventoryLevels_execute ?input (respondWith ?data) = Inr r \<and>
     map totalAvailable (inventoryItems r) = [7] \<and>
     map totalOnHand (inventoryItems r) = [11] \<and>
     map (map reserved) (map inventoryLevels (inventoryItems r)) = [[1, 0]]"
    by (intro exI [of _ result] conjI) simp_all
  with answered show ?thesis by (rule conjI)
qed

text \<open>
  C9 as stated fails: a successful result of run-shopifyql-query holds the columns, the
  rows and the row count only; it has no \<open>query\<close> key and echoes no parameter.
\<close>

theorem runShopifyqlQuery_result_has_no_echo:
  "runShopifyqlQuery_execute \<lparr>rq_query = ''FROM sales SHOW orders''\<rparr>
     (respondWith \<lparr>d_shopifyqlQuery =
        \<lparr>sq_tableData = Some
           \<lparr>td_columns = [\<lparr>col_name = ''orders'', col_dataType = ''number'',
                            col_displayName = ''Orders''\<rparr>],
            td_rows = [[''12'']]\<rparr>,
         sq_parseErrors = Some []\<rparr>\<rparr>)
   = Inr [(''columns'', RColumns [\<lparr>col_name = ''orders'', col_dataType = ''number'',
                                    col_displayName = ''Orders''\<rparr>]),
          (''rows'', RRows [[''12'']]),
          (''rowCount'', RNumber 1)] \<and>
   map_of [(''columns'', RColumns [\<lparr>col_name = ''orders'', col_dataType = ''number'',
                                    col_displayName = ''Orders''\<rparr>]),
           (''rows'', RRows [[''12'']]),
           (''rowCount'', RNumber 1)] ''query'' = None"
  by (simp add: runShopifyqlQuery_execute_def runShopifyqlQuery_try_def respondWith_def
      hasParseErrors_def Let_def)

text \<open>
  C9, amended: the successful results of get-sales-report, get-product-performance and
  get-customer-analytics hold, besides the reshaped collection and its count, an echo of
  the resolved ShopifyQL query string under \<open>query\<close> and of the parameters (the period,
  and the grouping, the sort key or the report type). The successful result of
  run-shopifyql-query holds exactly the keys \<open>columns\<close>, \<open>rows\<close> and \<open>rowCount\<close>.
\<close>

theorem analytics_results_echo_query:
  "(salesRequest \<lparr>qv_query = salesReportQuery salesInput\<rparr> = Inr salesData \<and>
    \<not> hasParseErrors salesData \<longrightarrow>
      (\<exists>result rows. getSalesReport_execute salesInput salesRequest = Inr result \<and>
         map_of result ''query'' = Some (RString (salesReportQuery salesInput)) \<and>
         map_of result ''period'' = Some (RString (sr_period salesInput)) \<and>
         map_of result ''groupBy'' = Some (RString (sr_groupBy salesInput)) \<and>
         map_of result ''rows'' = Some (RRows rows) \<and>
         map_of result ''rowCount'' = Some (RNumber (int (length rows))))) \<and>
   (productRequest \<lparr>qv_query = productPerformanceQuery productInput\<rparr> = Inr productData \<and>
    \<not> hasParseErrors productData \<longrightarrow>
      (\<exists>result products. getProductPerformance_execute productInput productRequest = Inr result \<and>
         map_of result ''query'' = Some (RString (productPerformanceQuery productInput)) \<and>
         map_of result ''period'' = Some (RString (pp_period productInput)) \<and>
         map_of result ''sortBy'' = Some (RString (pp_sortBy productInput)) \<and>
         map_of result ''products'' = Some (RObjects products) \<and>
         map_of result ''productCount'' = Some (RNumber (int (length products))))) \<and>
   (customerRequest \<lparr>qv_query = customerAnalyticsQuery customerInput\<rparr> = Inr customerData \<and>
    \<not> hasParseErrors customerData \<longrightarrow>
      (\<exists>result n. getCustomerAnalytics_execute customerInput customerRequest = Inr result \<and>
         map_of result ''query'' = Some (RString (customerAnalyticsQuery customerInput)) \<and>
         map_of result ''period'' = Some (RString (ca_period customerInput)) \<and>
         map_of result ''reportType'' = Some (RString (ca_reportType customerInput)) \<and>
         (map_of result ''rows'' = Some (RRows []) \<and> n = 0 \<or>
          (\<exists>results. map_of result ''results'' = Some (RObjects results) \<and>
             n = int (length results))) \<and>
         map_of result ''rowCount'' = Some (RNumber n))) \<and>
   (runRequest \<lparr>qv_query = rq_query runInput\<rparr> = Inr runData \<and>
    \<not> hasParseErrors runData \<longrightarrow>
      (\<exists>result rows. runShopifyqlQuery_execute runInput runRequest = Inr result \<and>
         map fst result = [''columns'', ''rows'', ''rowCount''] \<and>
         map_of result ''rows'' = Some (RRows rows) \<and>
         map_of result ''rowCount'' = Some (RNumber (int (length rows)))))"
proof -
  have sales: "\<exists>result rows. getSalesReport_execute salesInput salesRequest = Inr result \<and>
         map_of result ''query'' = Some (RString (salesReportQuery salesInput)) \<and>
         map_of result ''period'' = Some (RString (sr_period salesInput)) \<and>
         map_of result ''groupBy'' = Some (RString (sr_groupBy salesInput)) \<and>
         map_of result ''rows'' = Some (RRows rows) \<and>
         map_of result ''rowCount'' = Some (RNumber (int (length rows)))"
    if "salesRequest \<lparr>qv_query = salesReportQuery salesInput\<rparr> = Inr salesData"
      "\<not> hasParseErrors salesData"
    using that
    by (cases "sq_tableData (d_shopifyqlQuery salesData)")
       (simp_all add: getSalesReport_execute_def getSalesReport_try_def Let_def)
  have product: "\<exists>result products.
         getProductPerformance_execute productInput productRequest = Inr result \<and>
         map_of result ''query'' = Some (RString (productPerformanceQuery productInput)) \<and>
         map_of result ''period'' = Some (RString (pp_period productInput)) \<and>
         map_of result ''sortBy'' = Some (RString (pp_sortBy productInput)) \<and>
         map_of result ''products'' = Some (RObjects products) \<and>
         map_of result ''productCount'' = Some (RNumber (int (length products)))"
    if "productRequest \<lparr>qv_query = productPerformanceQuery productInput\<rparr> = Inr productData"
      "\<not> hasParseErrors productData"
    using that
    by (cases "sq_tableData (d_shopifyqlQuery productData)")
       (simp_all add: getProductPerformance_execute_def getProductPerformance_try_def Let_def)
  have customer: "\<exists>result n.
         getCustomerAnalytics_execute customerInput customerRequest = Inr result \<and>
         map_of result ''query'' = Some (RString (customerAnalyticsQuery customerInput)) \<and>
         map_of result ''period'' = Some (RString (ca_period customerInput)) \<and>
         map_of result ''reportType'' = Some (RString (ca_reportType customerInput)) \<and>
         (map_of result ''rows'' = Some (RRows []) \<and> n = 0 \<or>
          (\<exists>results. map_of result ''results'' = Some (RObjects results) \<and>
             n = int (length results))) \<and>
         map_of result ''rowCount'' = Some (RNumber n)"
    if "customerRequest \<lparr>qv_query = customerAnalyticsQuery customerInput\<rparr> = Inr customerData"
      "\<not> hasParseErrors customerData"
    using that
    by (cases "sq_tableData (d_shopifyqlQuery customerData)")
       (simp_all add: getCustomerAnalytics_execute_def getCustomerAnalytics_try_def Let_def)
  have run: "\<exists>result rows. runShopifyqlQuery_execute runInput runRequest = Inr result \<and>
         map fst result = [''columns'', ''rows'', ''rowCount''] \<and>
         map_of result ''rows'' = Some (RRows rows) \<and>
         map_of result ''rowCount'' = Some (RNumber (int (length rows)))"
    if "runRequest \<lparr>qv_query = rq_query runInput\<rparr> = Inr runData"
      "\<not> hasParseErrors runData"
    using that
    by (cases "sq_tableData (d_shopifyqlQuery runData)")
       (simp_all add: runShopifyqlQuery_execute_def runShopifyqlQuery_try_def Let_def)
  from sales product customer run show ?thesis
    by (intro conjI impI) (elim conjE, assumption)+
qed

theorem analytics_results_echo_query_witness:
  "\<not> hasParseErrors \<lparr>d_shopifyqlQuery =
        \<lparr>sq_tableData = Some
           \<lparr>td_columns = [\<lparr>col_name = ''orders'', col_dataType = ''number'',
                            col_displayName = ''Orders''\<rparr>],
            td_rows = [[''12'']]\<rparr>,
         sq_parseErrors = Some []\<rparr>\<rparr> \<and>
   (\<exists>result.
      getSalesReport_execute
        \<lparr>sr_period = ''today'', sr_groupBy = ''day'', sr_metrics = [''orders''], sr_limit = SafeInteger False 10\<rparr>
        (respondWith \<lparr>d_shopifyqlQuery =
           \<lparr>sq_tableData = Some
              \<lparr>td_columns = [\<lparr>col_name = ''orders'', col_dataType = ''number'',
                               col_displayName = ''Orders''\<rparr>],
               td_rows = [[''12'']]\<rparr>,
            sq_parseErrors = Some []\<rparr>\<rparr>)
      = Inr result \<and>
      map_of result ''query''
        = Some (RString ''FROM sales SHOW orders SINCE today GROUP BY day ORDER BY day LIMIT 10'')) \<and>
   (\<exists>result.
      getProductPerformance_execute
        \<lparr>pp_period = ''today'', pp_sortBy = ''orders'', pp_limit = SafeInteger False 10,
         pp_productType = Some ''Shoes''\<rparr>
        (respondWith \<lparr>d_shopifyqlQuery =
           \<lparr>sq_tableData = Some
              \<lparr>td_columns = [\<lparr>col_name = ''orders'', col_dataType = ''number'',
                               col_displayName = ''Orders''\<rparr>],
               td_rows = [[''12'']]\<rparr>,
            sq_parseErrors = Some []\<rparr>\<rparr>)
      = Inr result \<and>
      map_of result ''query''
        = Some (RString (''FROM sales SHOW product_title, total_sales, orders, units_sold ''
                  @ ''WHERE product_type = '' @ apostrophe @ ''Shoes'' @ apostrophe
                  @ '' SINCE today GROUP BY product_title ORDER BY orders DESC LIMIT 10''))) \<and>
   (\<exists>result.
      getCustomerAnalytics_execute
        \<lparr>ca_period = ''today'', ca_reportType = ''spending'', ca_groupBy = ''day''\<rparr>
        (respondWith \<lparr>d_shopifyqlQuery =
           \<lparr>sq_tableData = Some
              \<lparr>td_columns = [\<lparr>col_name = ''orders'', col_dataType = ''number'',
                               col_displayName = ''Orders''\<rparr>],
               td_rows = [[''12'']]\<rparr>,
            sq_parseErrors = Some []\<rparr>\<rparr>)
      = Inr result \<and>
      map_of result ''query''
        = Some (RString (''FROM sales SHOW total_sales, orders, average_order_value SINCE today''
                  @ '' GROUP BY billing_country ORDER BY total_sales DESC LIMIT 20''))) \<and>
   (\<exists>result.
      runShopifyqlQuery_execute \<lparr>rq_query = ''FROM sales SHOW orders''\<rparr>
        (respondWith \<lparr>d_shopifyqlQuery =
           \<lparr>sq_tableData = Some
              \<lparr>td_columns = [\<lparr>col_name = ''orders'', col_dataType = ''number'',
                               col_displayName = ''Orders''\<rparr>],
               td_rows = [[''12'']]\<rparr>,
            sq_parseErrors = Some []\<rparr>\<rparr>)
      = Inr result \<and>
      map fst result = [''columns'', ''rows'', ''rowCount''])"
proof -
  let ?data = "\<lparr>d_shopifyqlQuery =
        \<lparr>sq_tableData = Some
           \<lparr>td_columns = [\<lparr>col_name = ''orders'', col_dataType = ''number'',
                            col_displayName = ''Orders''\<rparr>],
            td_rows = [[''12'']]\<rparr>,
         sq_parseErrors = Some []\<rparr>\<rparr>"
  let ?sales = "\<lparr>sr_period = ''today'', sr_groupBy = ''day'', sr_metrics = [''orders''],
      sr_limit = SafeInteger False 10\<rparr>"
  let ?product = "\<lparr>pp_period = ''today'', pp_sortBy = ''orders'', pp_limit = SafeInteger False 10,
      pp_productType = Some ''Shoes''\<rparr>"
  let ?customer = "\<lparr>ca_period = ''today'', ca_reportType = ''spending'', ca_groupBy = ''day''\<rparr>"
  let ?run = "\<lparr>rq_query = ''FROM sales SHOW orders''\<rparr>"
  have answered: "respondWith ?data v = Inr ?data" for v :: query_variables
    by (simp add: respondWith_def)
  have ok: "\<not> hasParseErrors ?data"
    by (simp add: hasParseErrors_def)
  have salesQ: "salesReportQuery ?sales
      = ''FROM sales SHOW orders SINCE today GROUP BY day ORDER BY day LIMIT 10''"
    by (simp add: salesReportQuery_def buildShopifyQLQuery_def periodToShopifyQL_def
        groupByToShopifyQL_def groupByToOrderBy_def periodMap_def groupByMap_def orderByMap_def
        getProperty_def js_or_def digits.simps digitChar_def)
  have productQ: "productPerformanceQuery ?product
      = ''FROM sales SHOW product_title, total_sales, orders, units_sold ''
          @ ''WHERE product_type = '' @ apostrophe @ ''Shoes'' @ apostrophe
          @ '' SINCE today GROUP BY product_title ORDER BY orders DESC LIMIT 10''"
    by (simp add: productPerformanceQuery_def periodToShopifyQL_def periodMap_def
        getProperty_def js_or_def digits.simps digitChar_def)
  have customerQ: "customerAnalyticsQuery ?customer
      = ''FROM sales SHOW total_sales, orders, average_order_value SINCE today''
          @ '' GROUP BY billing_country ORDER BY total_sales DESC LIMIT 20''"
    by (simp add: customerAnalyticsQuery_def periodToShopifyQL_def periodMap_def
        getProperty_def js_or_def)
  note echo = analytics_results_echo_query
    [where salesRequest = "respondWith ?data" and salesInput = ?sales and salesData = ?data
       and productRequest = "respondWith ?data" and productInput = ?product
       and productData = ?data
       and customerRequest = "respondWith ?data" and customerInput = ?customer
       and customerData = ?data
       and runRequest = "respondWith ?data" and runInput = ?run and runData = ?data]
  have hyp: "respondWith ?data v = Inr ?data \<and> \<not> hasParseErrors ?data" for v :: query_variables
    using answered ok by (rule conjI)
  from echo [THEN conjunct1, THEN mp, OF hyp]
  obtain r1 where
    "getSalesReport_execute ?sales (respondWith ?data) = Inr r1"
    "map_of r1 ''query'' = Some (RString (salesReportQuery ?sales))"
    by (elim exE conjE)
  then have sales: "\<exists>result. getSalesReport_execute ?sales (respondWith ?data) = Inr result \<and>
      map_of result ''query''
        = Some (RString ''FROM sales SHOW orders SINCE today GROUP BY day ORDER BY day LIMIT 10'')"
    unfolding salesQ by (intro exI [of _ r1] conjI)
  from echo [THEN conjunct2, THEN conjunct1, THEN mp, OF hyp]
  obtain r2 where
    "getProductPerformance_execute ?product (respondWith ?data) = Inr r2"
    "map_of r2 ''query'' = Some (RString (productPerformanceQuery ?product))"
    by (elim exE conjE)
  then have product: "\<exists>result.
      getProductPerformance_execute ?product (respondWith ?data) = Inr result \<and>
      map_of result ''query''
        = Some (RString (''FROM sales SHOW product_title, total_sales, orders, units_sold ''
                  @ ''WHERE product_type = '' @ apostrophe @ ''Shoes'' @ apostrophe
                  @ '' SINCE today GROUP BY product_title ORDER BY orders DESC LIMIT 10''))"
    unfolding productQ by (intro exI [of _ r2] conjI)
  from echo [THEN conjunct2, THEN conjunct2, THEN conjunct1, THEN mp, OF hyp]
  obtain r3 where
    "getCustomerAnalytics_execute ?customer (respondWith ?data) = Inr r3"
    "map_of r3 ''query'' = Some (RString (customerAnalyticsQuery ?customer))"
    by (elim exE conjE)
  then have customer: "\<exists>result.
      getCustomerAnalytics_execute ?customer (respondWith ?data) = Inr result \<and>
      map_of result ''query''
        = Some (RString (''FROM sales SHOW total_sales, orders, average_order_value SINCE today''
                  @ '' GROUP BY billing_country ORDER BY total_sales DESC LIMIT 20''))"
    unfolding customerQ by (intro exI [of _ r3] conjI)
  from echo [THEN conjunct2, THEN conjunct2, THEN conjunct2, THEN mp, OF hyp]
  obtain r4 where
    "runShopifyqlQuery_execute ?run (respondWith ?data) = Inr r4"
    "map fst r4 = [''columns'', ''rows'', ''rowCount'']"
    by (elim exE conjE)
  then have run: "\<exists>result. runShopifyqlQuery_execute ?run (respondWith ?data) = Inr result \<and>
      map fst result = [''columns'', ''rows'', ''rowCount'']"
    by (intro exI [of _ r4] conjI)
  from ok sales product customer run show ?thesis
    by (intro conjI)
qed

end
